theory Spec2Isabelle
  imports Main
begin

section \<open>Low-level types\<close>

text \<open>
  The low-level (LLVM) types that GenFunc.cpp builds and inspects. Types are uniqued by
  their context, so identity of two type objects is equality of their structure.
\<close>

datatype llty =
    VoidTy
  | IntegerTy nat
  | HalfTy | FloatTy | DoubleTy | X86_FP80Ty | FP128Ty | PPC_FP128Ty
  | PointerTy llty
  | StructTy "llty list"
  | FunctionTy llty "llty list"

fun isFloatingPointTy :: "llty \<Rightarrow> bool" where
  "isFloatingPointTy HalfTy = True"
| "isFloatingPointTy FloatTy = True"
| "isFloatingPointTy DoubleTy = True"
| "isFloatingPointTy X86_FP80Ty = True"
| "isFloatingPointTy FP128Ty = True"
| "isFloatingPointTy PPC_FP128Ty = True"
| "isFloatingPointTy _ = False"

definition Int8PtrTy :: llty where
  "Int8PtrTy = PointerTy (IntegerTy 8)"

definition Int1Ty :: llty where
  "Int1Ty = IntegerTy 1"

definition getPointerTo :: "llty \<Rightarrow> llty" where
  "getPointerTo t = PointerTy t"

section \<open>Source-level types and value schemas\<close>

text \<open>
  Source types as far as this file looks into them: \<open>getAs<TupleType>\<close> tells a tuple
  (with its fields' types) from everything else, and a function type has an input and a
  result.
\<close>

datatype swtype =
    NominalType string
  | TupleType "swtype list"
  | FunctionType swtype swtype

text \<open>
  Modelled from the spec: RValue.h (the classes RValueSchema and RValue) is not among the
  sources. The spec's data model gives the schema as one of \<open>Aggregate(type, alignment)\<close>
  and \<open>Scalars(ordered list of primitive types)\<close>, and the r-value as either an ordered
  list of scalar values or one aggregate address.
\<close>

datatype RValueSchema =
    Aggregate llty nat
  | Scalars "llty list"

fun isAggregate :: "RValueSchema \<Rightarrow> bool" where
  "isAggregate (Aggregate t a) = True"
| "isAggregate (Scalars ts) = False"

fun isScalar :: "RValueSchema \<Rightarrow> bool" where
  "isScalar (Aggregate t a) = False"
| "isScalar (Scalars ts) = True"

section \<open>Type lowering descriptors\<close>

text \<open>
  GenType.h is not among the sources. A descriptor has the three storage fields the source
  reads (\<open>getStorageType()\<close>, \<open>StorageAlignment\<close>, and the size its constructor
  takes); \<open>Schema\<close> is what the descriptor's virtual \<open>getSchema()\<close> returns.
\<close>

record TypeInfo =
  StorageType :: llty
  StorageSize :: nat
  StorageAlignment :: nat
  Schema :: RValueSchema

text \<open>
  \<open>FuncTypeInfo\<close>: the function type \<open>FnTy\<close> (its input and its result) and the two
  mutable signature caches, null (\<open>None\<close>) until first computed.
\<close>

record FuncTypeInfo = TypeInfo +
  FnTy_Input :: swtype
  FnTy_Result :: swtype
  FunctionTypeWithData :: "llty option"
  FunctionTypeWithoutData :: "llty option"

text \<open>
  The module: the target's pointer layout and the descriptors of the types that are not
  function types (the type converter's, taken as given).
\<close>

record IRGenModule =
  PointerSize :: nat
  PointerABIAlignment :: nat
  OtherTypeInfo :: "swtype \<Rightarrow> TypeInfo"

text \<open>\<open>FuncTypeInfo::getSchema\<close>: the two elements of the storage struct, as scalars.
  The storage type is always the struct of two pointers that \<open>convertFunctionType\<close>
  builds, so the assertion on the number of its elements holds.\<close>

definition FuncTypeInfo_getSchema :: "llty \<Rightarrow> RValueSchema" where
  "FuncTypeInfo_getSchema Ty =
     (case Ty of StructTy [e0, e1] \<Rightarrow> Scalars [e0, e1] | _ \<Rightarrow> Scalars [])"

text \<open>\<open>TypeConverter::convertFunctionType\<close>.\<close>

definition convertFunctionType :: "IRGenModule \<Rightarrow> swtype \<Rightarrow> swtype \<Rightarrow> FuncTypeInfo" where
  "convertFunctionType IGM Inp Res =
     (let StructSize = PointerSize IGM * 2;
          StructAlign = PointerABIAlignment IGM;
          StructType = StructTy [Int8PtrTy, Int8PtrTy]
      in \<lparr> StorageType = StructType, StorageSize = StructSize,
           StorageAlignment = StructAlign,
           Schema = FuncTypeInfo_getSchema StructType,
           FnTy_Input = Inp, FnTy_Result = Res,
           FunctionTypeWithData = None, FunctionTypeWithoutData = None \<rparr>)"

text \<open>
  \<open>getFragileTypeInfo\<close>: a function type's descriptor is the one \<open>convertFunctionType\<close>
  makes; the storage fields and the schema do not depend on the caches.
\<close>

definition getFragileTypeInfo :: "IRGenModule \<Rightarrow> swtype \<Rightarrow> TypeInfo" where
  "getFragileTypeInfo IGM Ty =
     (case Ty of
        FunctionType i r \<Rightarrow> TypeInfo.truncate (convertFunctionType IGM i r)
      | _ \<Rightarrow> OtherTypeInfo IGM Ty)"

section \<open>Function-type lowering\<close>

text \<open>\<open>addArgType\<close>: accumulate an argument of the given type.\<close>

definition addArgType :: "IRGenModule \<Rightarrow> swtype \<Rightarrow> llty list \<Rightarrow> llty list" where
  "addArgType IGM Ty ArgTypes =
     (case Schema (getFragileTypeInfo IGM Ty) of
        Scalars ts \<Rightarrow> ArgTypes @ ts
      | Aggregate t a \<Rightarrow> ArgTypes @ [getPointerTo t])"

text \<open>
  The part of \<open>FuncTypeInfo::getFunctionType\<close> after the two cache tests: the result type
  by the four-way rule, the arguments with the first level of a tuple drilled into, the
  data argument last.
\<close>

definition resultTypeInfo :: "IRGenModule \<Rightarrow> RValueSchema \<Rightarrow> llty \<times> llty list" where
  "resultTypeInfo IGM ResultSchema =
     (case ResultSchema of
        Aggregate t a \<Rightarrow> (VoidTy, [getPointerTo t])
      | Scalars ts \<Rightarrow>
          if ts = [] then (VoidTy, [])
          else if length ts = 1 then (ts ! 0, [])
          else (StructTy ts, []))"

definition computeFunctionType :: "IRGenModule \<Rightarrow> FuncTypeInfo \<Rightarrow> bool \<Rightarrow> llty" where
  "computeFunctionType IGM fti NeedsData =
     (let ResultSchema = Schema (getFragileTypeInfo IGM (FnTy_Result fti));
          (ResultType, ArgTypes0) = resultTypeInfo IGM ResultSchema;
          ArgTypes1 =
            (case FnTy_Input fti of
               TupleType Fields \<Rightarrow> foldl (\<lambda>acc Field. addArgType IGM Field acc) ArgTypes0 Fields
             | _ \<Rightarrow> addArgType IGM (FnTy_Input fti) ArgTypes0);
          ArgTypes2 = (if NeedsData then ArgTypes1 @ [Int8PtrTy] else ArgTypes1)
      in FunctionTy ResultType ArgTypes2)"

text \<open>
  \<open>FuncTypeInfo::getFunctionType\<close>, with the mutable caches returned: a cached type is
  returned as it is; otherwise the type is computed and stored under its flag.
\<close>

definition getFunctionType :: "IRGenModule \<Rightarrow> FuncTypeInfo \<Rightarrow> bool \<Rightarrow> llty \<times> FuncTypeInfo" where
  "getFunctionType IGM fti NeedsData =
     (if NeedsData \<and> FunctionTypeWithData fti \<noteq> None
        then (the (FunctionTypeWithData fti), fti)
      else if \<not> NeedsData \<and> FunctionTypeWithoutData fti \<noteq> None
        then (the (FunctionTypeWithoutData fti), fti)
      else
        let IRType = computeFunctionType IGM fti NeedsData
        in if NeedsData
             then (IRType, fti\<lparr>FunctionTypeWithData := Some IRType\<rparr>)
             else (IRType, fti\<lparr>FunctionTypeWithoutData := Some IRType\<rparr>))"

text \<open>
  The descriptors a compilation can hold: the one the converter makes, and every one a
  call of \<open>getFunctionType\<close> leaves behind.
\<close>

inductive reachable :: "IRGenModule \<Rightarrow> FuncTypeInfo \<Rightarrow> bool" for IGM where
  fresh: "reachable IGM (convertFunctionType IGM i r)"
| step: "reachable IGM fti \<Longrightarrow> reachable IGM (snd (getFunctionType IGM fti b))"

section \<open>Low-level values and the instruction builder\<close>

text \<open>
  A low-level value is a constant (the undefined value of a type, a global), an argument
  of the function being emitted, or what the builder returned for a request. Every value
  carries its type (\<open>getType()\<close>). Value names are cosmetic and left out.
\<close>

datatype llvalue =
    UndefValue llty
  | GlobalValue string llty
  | Argument nat llty
  | InstValue nat llty

fun getType :: "llvalue \<Rightarrow> llty" where
  "getType (UndefValue t) = t"
| "getType (GlobalValue n t) = t"
| "getType (Argument i t) = t"
| "getType (InstValue i t) = t"

text \<open>\<open>isa<llvm::UndefValue>\<close>.\<close>

fun isaUndefValue :: "llvalue \<Rightarrow> bool" where
  "isaUndefValue (UndefValue t) = True"
| "isaUndefValue _ = False"

text \<open>\<open>isa<llvm::Argument>\<close>.\<close>

fun isaArgument :: "llvalue \<Rightarrow> bool" where
  "isaArgument (Argument i t) = True"
| "isaArgument _ = False"

datatype Attribute = StructRet | NoAlias

datatype UnaryOp = CreateNeg | CreateNot

datatype BinaryOp =
    CreateAdd | CreateFAdd | CreateMul | CreateFMul | CreateSub | CreateFSub
  | CreateAnd | CreateFDiv | CreateOr | CreateSDiv | CreateExactSDiv | CreateSRem
  | CreateUDiv | CreateExactUDiv | CreateURem | CreateXor
  | CreateICmpEQ | CreateICmpNE | CreateICmpSLE | CreateICmpSLT | CreateICmpSGE
  | CreateICmpSGT | CreateICmpULE | CreateICmpULT | CreateICmpUGE | CreateICmpUGT
  | CreateFCmpOEQ | CreateFCmpOGT | CreateFCmpOGE | CreateFCmpOLT | CreateFCmpOLE
  | CreateFCmpONE | CreateFCmpORD | CreateFCmpUEQ | CreateFCmpUGT | CreateFCmpUGE
  | CreateFCmpULT | CreateFCmpULE | CreateFCmpUNE | CreateFCmpUNO

text \<open>
  The requests this file makes of the builder, with their operands. A call carries the
  attribute list set on it right after its creation. What the builder makes of a request
  (an instruction, or a folded constant where every operand is a constant and the
  operation folds) is the builder's; loads, stores, calls and allocas are never folded.
\<close>

datatype inst =
    Alloca llty nat
  | StructGEP llvalue nat
  | Load llvalue nat
  | Store llvalue llvalue nat
  | BitCast llvalue llty
  | Call llvalue "llvalue list" "(nat \<times> Attribute set) list"
  | ExtractValue llvalue nat
  | InsertValue llvalue llvalue nat
  | Unary UnaryOp llvalue
  | Binary BinaryOp llvalue llvalue
  | Br nat
  | Ret llvalue
  | RetVoid

fun isCompare :: "BinaryOp \<Rightarrow> bool" where
  "isCompare CreateAdd = False" | "isCompare CreateFAdd = False"
| "isCompare CreateMul = False" | "isCompare CreateFMul = False"
| "isCompare CreateSub = False" | "isCompare CreateFSub = False"
| "isCompare CreateAnd = False" | "isCompare CreateFDiv = False"
| "isCompare CreateOr = False" | "isCompare CreateSDiv = False"
| "isCompare CreateExactSDiv = False" | "isCompare CreateSRem = False"
| "isCompare CreateUDiv = False" | "isCompare CreateExactUDiv = False"
| "isCompare CreateURem = False" | "isCompare CreateXor = False"
| "isCompare _ = True"

text \<open>
  The type of the value a request returns. An ill-typed request is the builder's own
  assertion; its value is given the void type here.
\<close>

fun instType :: "inst \<Rightarrow> llty" where
  "instType (Alloca t a) = PointerTy t"
| "instType (StructGEP p i) =
     (case getType p of
        PointerTy (StructTy ts) \<Rightarrow> if i < length ts then PointerTy (ts ! i) else VoidTy
      | _ \<Rightarrow> VoidTy)"
| "instType (Load p a) = (case getType p of PointerTy t \<Rightarrow> t | _ \<Rightarrow> VoidTy)"
| "instType (Store v p a) = VoidTy"
| "instType (BitCast v t) = t"
| "instType (Call f xs as) =
     (case getType f of PointerTy (FunctionTy r ps) \<Rightarrow> r | _ \<Rightarrow> VoidTy)"
| "instType (ExtractValue v i) =
     (case getType v of
        StructTy ts \<Rightarrow> if i < length ts then ts ! i else VoidTy
      | _ \<Rightarrow> VoidTy)"
| "instType (InsertValue agg v i) = getType agg"
| "instType (Unary op v) = getType v"
| "instType (Binary op l r) = (if isCompare op then Int1Ty else getType l)"
| "instType (Br b) = VoidTy"
| "instType (Ret v) = VoidTy"
| "instType RetVoid = VoidTy"

text \<open>
  What happens to the function under construction, in the order it happens: builder
  requests, moves of the insertion point, blocks appended to the function, and
  instructions and blocks erased.
\<close>

datatype action =
    Create inst
  | SetInsertPoint nat
  | PushBlock nat
  | EraseInst llvalue
  | EraseBlock nat

record Address =
  getAddress :: llvalue
  getAlignment :: nat

text \<open>A user of a basic block: a branch (its value, its parent block, whether it is
  unconditional) or anything else.\<close>

datatype User =
    BranchInst llvalue nat bool
  | OtherUser llvalue

text \<open>
  A named argument of the function being emitted. \<open>Locals\<close> is keyed by the address of
  the declaration: \<open>ArgDecl_Id\<close> is that identity, so two declarations of the same name
  and type are two keys.
\<close>

record ArgDecl =
  ArgDecl_Id :: nat
  ArgDecl_getName :: string
  ArgDecl_getType :: swtype

text \<open>
  \<open>IRGenFunction\<close> as far as this file reads and writes it. \<open>Log\<close> is the order of
  events; \<open>InstValue n t\<close> is what the builder returned for the event at position \<open>n\<close>.
  \<open>InsertBlock\<close> is the builder's insertion block (\<open>hasValidIP()\<close> is that it is set).
  \<open>FuncTypeInfos\<close> is the type converter's registry of function-type descriptors, whose
  caches \<open>getFunctionType\<close> fills. An invalid \<open>Address\<close> and a null pointer are \<open>None\<close>.
\<close>

record IRGenFunction =
  IGM :: IRGenModule
  FuncTypeInfos :: "swtype \<Rightarrow> swtype \<Rightarrow> FuncTypeInfo"
  Log :: "action list"
  InsertBlock :: "nat option"
  NextBlock :: nat
  CurFn_Blocks :: "nat list"
  CurFn_ArgTypes :: "llty list"
  CurFn_ReturnType :: llty
  CurFuncExpr_Type :: swtype
  CurFuncExpr_NamedArgs :: "ArgDecl list"
  AllocaIP :: "llvalue option"
  ReturnBB :: "nat option"
  ReturnBB_Uses :: "User list"
  ReturnSlot :: "Address option"
  Locals :: "(nat \<times> Address) list"

datatype error =
    AssertionFailed string
  | Unreachable string
  | NullDereference string

definition bind :: "error + 'a \<Rightarrow> ('a \<Rightarrow> error + 'b) \<Rightarrow> error + 'b" where
  "bind m f = (case m of Inl e \<Rightarrow> Inl e | Inr x \<Rightarrow> f x)"

definition assert :: "bool \<Rightarrow> string \<Rightarrow> error + unit" where
  "assert c msg = (if c then Inr () else Inl (AssertionFailed msg))"

text \<open>A builder request: logged, and its value returned.\<close>

definition create :: "inst \<Rightarrow> IRGenFunction \<Rightarrow> llvalue \<times> IRGenFunction" where
  "create i IGF =
     (InstValue (length (Log IGF)) (instType i), IGF\<lparr>Log := Log IGF @ [Create i]\<rparr>)"

definition perform :: "action \<Rightarrow> IRGenFunction \<Rightarrow> IRGenFunction" where
  "perform a IGF = IGF\<lparr>Log := Log IGF @ [a]\<rparr>"

definition hasValidIP :: "IRGenFunction \<Rightarrow> bool" where
  "hasValidIP IGF = (InsertBlock IGF \<noteq> None)"

definition SetInsertPointBB :: "nat \<Rightarrow> IRGenFunction \<Rightarrow> IRGenFunction" where
  "SetInsertPointBB bb IGF = (perform (SetInsertPoint bb) IGF)\<lparr>InsertBlock := Some bb\<rparr>"

text \<open>\<open>createBasicBlock\<close>: a new block, not yet in the function.\<close>

definition createBasicBlock :: "IRGenFunction \<Rightarrow> nat \<times> IRGenFunction" where
  "createBasicBlock IGF = (NextBlock IGF, IGF\<lparr>NextBlock := Suc (NextBlock IGF)\<rparr>)"

definition pushBlock :: "nat \<Rightarrow> IRGenFunction \<Rightarrow> IRGenFunction" where
  "pushBlock bb IGF = (perform (PushBlock bb) IGF)\<lparr>CurFn_Blocks := CurFn_Blocks IGF @ [bb]\<rparr>"

text \<open>
  Modelled from the spec: \<open>createScopeAlloca\<close> and \<open>createFullExprAlloca\<close> are members of
  IRGenFunction defined outside this file. By the spec they are the scoped
  local-storage allocation, which returns an address: an alloca of the type at the
  alignment, and the address of that alloca at that alignment.
\<close>

definition createScopeAlloca :: "llty \<Rightarrow> nat \<Rightarrow> IRGenFunction \<Rightarrow> Address \<times> IRGenFunction" where
  "createScopeAlloca ty align IGF =
     (let (v, IGF') = create (Alloca ty align) IGF
      in (\<lparr>getAddress = v, getAlignment = align\<rparr>, IGF'))"

definition createFullExprAlloca :: "llty \<Rightarrow> nat \<Rightarrow> IRGenFunction \<Rightarrow> Address \<times> IRGenFunction" where
  "createFullExprAlloca ty align IGF =
     (let (v, IGF') = create (Alloca ty align) IGF
      in (\<lparr>getAddress = v, getAlignment = align\<rparr>, IGF'))"

section \<open>Explosions and r-values\<close>

datatype ExplosionKind = Minimal | Maximal

text \<open>
  Modelled from the spec: Explosion.h is not among the sources. By the spec an explosion
  is an ordered append-and-claim-next sequence of low-level values; claiming past the end
  is fatal. \<open>getAll\<close> hands out the values not yet claimed and claims none.
\<close>

record Explosion =
  Kind :: ExplosionKind
  Values :: "llvalue list"
  NextValue :: nat

definition newExplosion :: "ExplosionKind \<Rightarrow> Explosion" where
  "newExplosion k = \<lparr>Kind = k, Values = [], NextValue = 0\<rparr>"

definition add :: "llvalue list \<Rightarrow> Explosion \<Rightarrow> Explosion" where
  "add vs e = e\<lparr>Values := Values e @ vs\<rparr>"

definition claimNext :: "Explosion \<Rightarrow> error + (llvalue \<times> Explosion)" where
  "claimNext e =
     (if NextValue e < length (Values e)
      then Inr (Values e ! NextValue e, e\<lparr>NextValue := Suc (NextValue e)\<rparr>)
      else Inl (AssertionFailed ''claiming past the end of an explosion''))"

definition empty :: "Explosion \<Rightarrow> bool" where
  "empty e = (NextValue e = length (Values e))"

definition getAll :: "Explosion \<Rightarrow> llvalue list" where
  "getAll e = drop (NextValue e) (Values e)"

text \<open>Modelled from the spec: the r-value of RValue.h (see the schema above).\<close>

datatype RValue =
    forScalars "llvalue list"
  | forAggregate llvalue

fun RValue_isScalar :: "RValue \<Rightarrow> bool" where
  "RValue_isScalar (forScalars vs) = True"
| "RValue_isScalar (forAggregate a) = False"

text \<open>Modelled from the spec: the overload \<open>isScalar(unsigned)\<close> of RValue (RValue.h).
  By the spec the epilogue returns "its single value directly" under \<open>RV.isScalar(1)\<close>,
  the r-value of one scalar.\<close>

fun RValue_isScalarN :: "RValue \<Rightarrow> nat \<Rightarrow> bool" where
  "RValue_isScalarN (forScalars vs) n = (length vs = n)"
| "RValue_isScalarN (forAggregate a) n = False"

fun getScalars :: "RValue \<Rightarrow> error + llvalue list" where
  "getScalars (forScalars vs) = Inr vs"
| "getScalars (forAggregate a) = Inl (AssertionFailed ''isScalar()'')"

fun getAggregateAddress :: "RValue \<Rightarrow> error + llvalue" where
  "getAggregateAddress (forAggregate a) = Inr a"
| "getAggregateAddress (forScalars vs) = Inl (AssertionFailed ''isAggregate()'')"

section \<open>Collaborators\<close>

text \<open>
  The AST as far as call emission reads it. Lowering an expression
  (\<open>emitExplodedRValue\<close>) is the rest of the compiler's: it returns the values it adds to
  the explosion and may do anything to the function under construction.
  The descriptors' virtual \<open>load\<close> and \<open>store\<close> of the types that are not function types
  emit through the builder only: given the position of the next event they return the
  requests to append. \<open>alignmentAtOffset\<close> belongs to the Alignment class, and
  \<open>getAddrOfGlobalFunction\<close> to the module.
  \<open>schemaIsScalarN\<close> is the overload \<open>isScalar(unsigned)\<close> of RValueSchema. It is declared
  in RValue.h, which is not among the sources, and nothing here fixes what it tests: it
  is taken as given, and what is proved of the prologue and the epilogue holds for
  every such test.
\<close>

datatype DeclContext = TheBuiltinModule | ModuleContext string | LocalContext

datatype BuiltinValueKind =
    NoneKind | Neg | NotKind | Add | And | FDiv | Mul | Or | SDiv | SDivExact | SRem | Sub
  | UDiv | UDivExact | URem | Xor
  | CmpEQ | CmpNE | CmpSLE | CmpSLT | CmpSGE | CmpSGT | CmpULE | CmpULT | CmpUGE | CmpUGT
  | FCmpOEQ | FCmpOGT | FCmpOGE | FCmpOLT | FCmpOLE | FCmpONE | FCmpORD
  | FCmpUEQ | FCmpUGT | FCmpUGE | FCmpULT | FCmpULE | FCmpUNE | FCmpUNO

text \<open>A function declaration: its name, its context, and what \<open>isBuiltinValue\<close> makes of
  the name.\<close>

record FuncDecl =
  getName :: string
  getDeclContext :: DeclContext
  isBuiltinValue :: BuiltinValueKind

record Expr =
  ExprId :: nat
  Expr_getType :: swtype

record ApplyExpr =
  getCalledValue :: "FuncDecl option"
  getFn :: Expr
  getArg :: Expr

record Collaborators =
  emitExplodedRValue :: "Expr \<Rightarrow> IRGenFunction \<Rightarrow> llvalue list \<times> IRGenFunction"
  storeOther :: "TypeInfo \<Rightarrow> RValue \<Rightarrow> Address \<Rightarrow> nat \<Rightarrow> error + inst list"
  loadOther :: "TypeInfo \<Rightarrow> Address \<Rightarrow> nat \<Rightarrow> error + (RValue \<times> inst list)"
  alignmentAtOffset :: "nat \<Rightarrow> nat \<Rightarrow> nat"
  getAddrOfGlobalFunction :: "FuncDecl \<Rightarrow> llvalue"
  schemaIsScalarN :: "RValueSchema \<Rightarrow> nat \<Rightarrow> bool"

definition emitAll :: "inst list \<Rightarrow> IRGenFunction \<Rightarrow> IRGenFunction" where
  "emitAll is IGF = IGF\<lparr>Log := Log IGF @ map Create is\<rparr>"

section \<open>The closure representation: load and store\<close>

text \<open>\<open>FuncTypeInfo::load\<close>: the function pointer from field 0, the data pointer from
  field 1 of the slot.\<close>

definition FuncTypeInfo_load ::
  "Collaborators \<Rightarrow> TypeInfo \<Rightarrow> Address \<Rightarrow> IRGenFunction \<Rightarrow> RValue \<times> IRGenFunction" where
  "FuncTypeInfo_load C TI address IGF =
     (let addr = getAddress address;
          (fnAddr, IGF1) = create (StructGEP addr 0) IGF;
          (fn, IGF2) = create (Load fnAddr (getAlignment address)) IGF1;
          (dataAddr, IGF3) = create (StructGEP addr 1) IGF2;
          (data, IGF4) =
            create (Load dataAddr
                      (alignmentAtOffset C (getAlignment address) (StorageAlignment TI))) IGF3
      in (forScalars [fn, data], IGF4))"

text \<open>\<open>FuncTypeInfo::store\<close>.\<close>

definition FuncTypeInfo_store ::
  "Collaborators \<Rightarrow> TypeInfo \<Rightarrow> RValue \<Rightarrow> Address \<Rightarrow> IRGenFunction \<Rightarrow> error + IRGenFunction" where
  "FuncTypeInfo_store C TI RV address IGF =
     bind (assert (case RV of forScalars vs \<Rightarrow> length vs = 2 | forAggregate a \<Rightarrow> False)
             ''RV.isScalar() && RV.getScalars().size() == 2'')
       (\<lambda>_. bind (getScalars RV)
       (\<lambda>scalars.
          let addr = getAddress address;
              (fnAddr, IGF1) = create (StructGEP addr 0) IGF;
              (s0, IGF2) = create (Store (scalars ! 0) fnAddr (getAlignment address)) IGF1;
              (dataAddr, IGF3) = create (StructGEP addr 1) IGF2;
              (s1, IGF4) =
                create (Store (scalars ! 1) dataAddr
                          (alignmentAtOffset C (getAlignment address) (StorageAlignment TI))) IGF3
          in Inr IGF4))"

text \<open>The virtual \<open>load\<close> and \<open>store\<close> of the descriptor of a source type.\<close>

definition TypeInfo_load ::
  "Collaborators \<Rightarrow> swtype \<Rightarrow> TypeInfo \<Rightarrow> Address \<Rightarrow> IRGenFunction
     \<Rightarrow> error + (RValue \<times> IRGenFunction)" where
  "TypeInfo_load C Ty TI address IGF =
     (case Ty of
        FunctionType i r \<Rightarrow> Inr (FuncTypeInfo_load C TI address IGF)
      | _ \<Rightarrow> bind (loadOther C TI address (length (Log IGF)))
                 (\<lambda>(RV, is). Inr (RV, emitAll is IGF)))"

definition TypeInfo_store ::
  "Collaborators \<Rightarrow> swtype \<Rightarrow> TypeInfo \<Rightarrow> RValue \<Rightarrow> Address \<Rightarrow> IRGenFunction
     \<Rightarrow> error + IRGenFunction" where
  "TypeInfo_store C Ty TI RV address IGF =
     (case Ty of
        FunctionType i r \<Rightarrow> FuncTypeInfo_store C TI RV address IGF
      | _ \<Rightarrow> bind (storeOther C TI RV address (length (Log IGF)))
                 (\<lambda>is. Inr (emitAll is IGF)))"

text \<open>\<open>emitExplodedRValueForFunction\<close>: a global function has the undefined value as its
  data pointer; a local function is not implemented and is two undefined values.\<close>

definition emitExplodedRValueForFunction ::
  "Collaborators \<Rightarrow> FuncDecl \<Rightarrow> Explosion \<Rightarrow> Explosion" where
  "emitExplodedRValueForFunction C Fn explosion =
     (if getDeclContext Fn \<noteq> LocalContext
      then add [UndefValue Int8PtrTy] (add [getAddrOfGlobalFunction C Fn] explosion)
      else let undef = UndefValue Int8PtrTy in add [undef] (add [undef] explosion))"

section \<open>Builtin calls\<close>

record ArgList =
  ArgList_Values :: Explosion
  ArgList_Attrs :: "(nat \<times> Attribute set) list"

definition newArgList :: "ExplosionKind \<Rightarrow> ArgList" where
  "newArgList kind = \<lparr>ArgList_Values = newExplosion kind, ArgList_Attrs = []\<rparr>"

definition UNARY_OPERATION ::
  "UnaryOp \<Rightarrow> ArgList \<Rightarrow> IRGenFunction \<Rightarrow> error + (RValue \<times> IRGenFunction)" where
  "UNARY_OPERATION Op args IGF =
     bind (claimNext (ArgList_Values args))
       (\<lambda>(op, Values1).
          bind (assert (empty Values1) ''wrong operands to unary operation'')
            (\<lambda>_. let (v, IGF') = create (Unary Op op) IGF in Inr (forScalars [v], IGF')))"

definition BINARY_OPERATION ::
  "BinaryOp \<Rightarrow> ArgList \<Rightarrow> IRGenFunction \<Rightarrow> error + (RValue \<times> IRGenFunction)" where
  "BINARY_OPERATION Op args IGF =
     bind (claimNext (ArgList_Values args))
       (\<lambda>(lhs, Values1). bind (claimNext Values1)
       (\<lambda>(rhs, Values2).
          bind (assert (empty Values2) ''wrong operands to binary operation'')
            (\<lambda>_. let (v, IGF') = create (Binary Op lhs rhs) IGF
                 in Inr (forScalars [v], IGF'))))"

definition BINARY_ARITHMETIC_OPERATION ::
  "BinaryOp \<Rightarrow> BinaryOp \<Rightarrow> ArgList \<Rightarrow> IRGenFunction \<Rightarrow> error + (RValue \<times> IRGenFunction)" where
  "BINARY_ARITHMETIC_OPERATION IntOp FPOp args IGF =
     bind (claimNext (ArgList_Values args))
       (\<lambda>(lhs, Values1). bind (claimNext Values1)
       (\<lambda>(rhs, Values2).
          bind (assert (empty Values2) ''wrong operands to binary operation'')
            (\<lambda>_. if isFloatingPointTy (getType lhs)
                 then let (v, IGF') = create (Binary FPOp lhs rhs) IGF
                      in Inr (forScalars [v], IGF')
                 else let (v, IGF') = create (Binary IntOp lhs rhs) IGF
                      in Inr (forScalars [v], IGF'))))"

fun builtinSwitch ::
  "BuiltinValueKind \<Rightarrow> ArgList \<Rightarrow> IRGenFunction \<Rightarrow> error + (RValue \<times> IRGenFunction)" where
  "builtinSwitch NoneKind = (\<lambda>args IGF. Inl (Unreachable ''not a builtin after all!''))"
| "builtinSwitch Neg = UNARY_OPERATION CreateNeg"
| "builtinSwitch NotKind = UNARY_OPERATION CreateNot"
| "builtinSwitch Add = BINARY_ARITHMETIC_OPERATION CreateAdd CreateFAdd"
| "builtinSwitch And = BINARY_OPERATION CreateAnd"
| "builtinSwitch FDiv = BINARY_OPERATION CreateFDiv"
| "builtinSwitch Mul = BINARY_ARITHMETIC_OPERATION CreateMul CreateFMul"
| "builtinSwitch Or = BINARY_OPERATION CreateOr"
| "builtinSwitch SDiv = BINARY_OPERATION CreateSDiv"
| "builtinSwitch SDivExact = BINARY_OPERATION CreateExactSDiv"
| "builtinSwitch SRem = BINARY_OPERATION CreateSRem"
| "builtinSwitch Sub = BINARY_ARITHMETIC_OPERATION CreateSub CreateFSub"
| "builtinSwitch UDiv = BINARY_OPERATION CreateUDiv"
| "builtinSwitch UDivExact = BINARY_OPERATION CreateExactUDiv"
| "builtinSwitch URem = BINARY_OPERATION CreateURem"
| "builtinSwitch Xor = BINARY_OPERATION CreateXor"
| "builtinSwitch CmpEQ = BINARY_OPERATION CreateICmpEQ"
| "builtinSwitch CmpNE = BINARY_OPERATION CreateICmpNE"
| "builtinSwitch CmpSLE = BINARY_OPERATION CreateICmpSLE"
| "builtinSwitch CmpSLT = BINARY_OPERATION CreateICmpSLT"
| "builtinSwitch CmpSGE = BINARY_OPERATION CreateICmpSGE"
| "builtinSwitch CmpSGT = BINARY_OPERATION CreateICmpSGT"
| "builtinSwitch CmpULE = BINARY_OPERATION CreateICmpULE"
| "builtinSwitch CmpULT = BINARY_OPERATION CreateICmpULT"
| "builtinSwitch CmpUGE = BINARY_OPERATION CreateICmpUGE"
| "builtinSwitch CmpUGT = BINARY_OPERATION CreateICmpUGT"
| "builtinSwitch FCmpOEQ = BINARY_OPERATION CreateFCmpOEQ"
| "builtinSwitch FCmpOGT = BINARY_OPERATION CreateFCmpOGT"
| "builtinSwitch FCmpOGE = BINARY_OPERATION CreateFCmpOGE"
| "builtinSwitch FCmpOLT = BINARY_OPERATION CreateFCmpOLT"
| "builtinSwitch FCmpOLE = BINARY_OPERATION CreateFCmpOLE"
| "builtinSwitch FCmpONE = BINARY_OPERATION CreateFCmpONE"
| "builtinSwitch FCmpORD = BINARY_OPERATION CreateFCmpORD"
| "builtinSwitch FCmpUEQ = BINARY_OPERATION CreateFCmpUEQ"
| "builtinSwitch FCmpUGT = BINARY_OPERATION CreateFCmpUGT"
| "builtinSwitch FCmpUGE = BINARY_OPERATION CreateFCmpUGE"
| "builtinSwitch FCmpULT = BINARY_OPERATION CreateFCmpULT"
| "builtinSwitch FCmpULE = BINARY_OPERATION CreateFCmpULE"
| "builtinSwitch FCmpUNE = BINARY_OPERATION CreateFCmpUNE"
| "builtinSwitch FCmpUNO = BINARY_OPERATION CreateFCmpUNO"

text \<open>\<open>emitBuiltinCall\<close>: the arguments are exploded minimally, then the switch on the
  builtin's kind.\<close>

definition emitBuiltinCall ::
  "Collaborators \<Rightarrow> FuncDecl \<Rightarrow> Expr \<Rightarrow> TypeInfo \<Rightarrow> IRGenFunction
     \<Rightarrow> error + (RValue \<times> IRGenFunction)" where
  "emitBuiltinCall C Fn Arg resultType IGF =
     bind (assert (isScalar (Schema resultType)) ''builtin type with agg return'')
       (\<lambda>_. let args = newArgList Minimal;
                (vs, IGF1) = emitExplodedRValue C Arg IGF;
                args1 = args\<lparr>ArgList_Values := add vs (ArgList_Values args)\<rparr>
            in builtinSwitch (isBuiltinValue Fn) args1 IGF1)"

section \<open>Call emission\<close>

text \<open>\<open>ArgList::addArg\<close>.\<close>

definition addArg :: "RValue \<Rightarrow> ArgList \<Rightarrow> ArgList" where
  "addArg arg args =
     (case arg of
        forScalars vs \<Rightarrow> args\<lparr>ArgList_Values := add vs (ArgList_Values args)\<rparr>
      | forAggregate a \<Rightarrow> args\<lparr>ArgList_Values := add [a] (ArgList_Values args)\<rparr>)"

text \<open>\<open>getFragileTypeInfo(type).as<FuncTypeInfo>()\<close>: the registry's descriptor of a
  function type.\<close>

definition getFuncTypeInfo :: "IRGenFunction \<Rightarrow> swtype \<Rightarrow> error + FuncTypeInfo" where
  "getFuncTypeInfo IGF Ty =
     (case Ty of
        FunctionType i r \<Rightarrow> Inr (FuncTypeInfos IGF i r)
      | _ \<Rightarrow> Inl (AssertionFailed ''as<FuncTypeInfo>''))"

definition setFuncTypeInfo :: "swtype \<Rightarrow> FuncTypeInfo \<Rightarrow> IRGenFunction \<Rightarrow> IRGenFunction" where
  "setFuncTypeInfo Ty fti IGF =
     (case Ty of
        FunctionType i r \<Rightarrow>
          IGF\<lparr>FuncTypeInfos := (FuncTypeInfos IGF)(i := (FuncTypeInfos IGF i)(r := fti))\<rparr>
      | _ \<Rightarrow> IGF)"

text \<open>\<open>IRGenModule::getFunctionType\<close>.\<close>

definition IRGenModule_getFunctionType ::
  "swtype \<Rightarrow> bool \<Rightarrow> IRGenFunction \<Rightarrow> error + (llty \<times> IRGenFunction)" where
  "IRGenModule_getFunctionType type withData IGF =
     bind (getFuncTypeInfo IGF type)
       (\<lambda>fnTypeInfo.
          let (t, fnTypeInfo') = getFunctionType (IGM IGF) fnTypeInfo withData
          in Inr (t, setFuncTypeInfo type fnTypeInfo' IGF))"

text \<open>The loop that rebuilds a result of several scalars: one \<open>CreateExtractValue\<close> for
  each index.\<close>

primrec extractResults ::
  "llvalue \<Rightarrow> nat list \<Rightarrow> llvalue list \<Rightarrow> IRGenFunction \<Rightarrow> llvalue list \<times> IRGenFunction" where
  "extractResults call [] result IGF = (result, IGF)"
| "extractResults call (I # Is) result IGF =
     (let (scalar, IGF') = create (ExtractValue call I) IGF
      in extractResults call Is (result @ [scalar]) IGF')"

text \<open>The first argument is the implicit aggregate return slot, if required.\<close>

definition addResultSlot ::
  "RValueSchema \<Rightarrow> ArgList \<Rightarrow> IRGenFunction \<Rightarrow> ArgList \<times> IRGenFunction" where
  "addResultSlot resultSchema args IGF =
     (case resultSchema of
        Aggregate aggTy aggAlign \<Rightarrow>
          let (resultSlot, IGF') = createFullExprAlloca aggTy aggAlign IGF
          in (args\<lparr>ArgList_Values := add [getAddress resultSlot] (ArgList_Values args),
                    ArgList_Attrs := ArgList_Attrs args @ [(1, {StructRet, NoAlias})]\<rparr>,
              IGF')
      | Scalars ts \<Rightarrow> (args, IGF))"

text \<open>No data argument is passed if the r-value says it is undefined.\<close>

definition addDataArg :: "llvalue \<Rightarrow> ArgList \<Rightarrow> bool \<times> ArgList" where
  "addDataArg data args =
     (let needsData = (\<not> isaUndefValue data)
      in (needsData,
          if needsData then args\<lparr>ArgList_Values := add [data] (ArgList_Values args)\<rparr>
          else args))"

text \<open>The r-value built from the call.\<close>

definition buildResult ::
  "RValueSchema \<Rightarrow> ArgList \<Rightarrow> llvalue \<Rightarrow> IRGenFunction
     \<Rightarrow> error + (RValue \<times> IRGenFunction)" where
  "buildResult resultSchema args call IGF =
     (case resultSchema of
        Aggregate aggTy aggAlign \<Rightarrow>
          bind (claimNext (ArgList_Values args))
            (\<lambda>(slot, Values'). Inr (forAggregate slot, IGF))
      | Scalars ts \<Rightarrow>
          if length ts = 1 then Inr (forScalars [call], IGF)
          else let (result, IGF') = extractResults call [0..<length ts] [] IGF
               in Inr (forScalars result, IGF'))"

text \<open>\<open>emitApplyExpr\<close> after the test for a builtin.\<close>

definition emitApplyGeneral ::
  "Collaborators \<Rightarrow> ApplyExpr \<Rightarrow> TypeInfo \<Rightarrow> IRGenFunction
     \<Rightarrow> error + (RValue \<times> IRGenFunction)" where
  "emitApplyGeneral C E resultType IGF =
     (let (fnVs, IGF1) = emitExplodedRValue C (getFn E) IGF;
          fnValues = add fnVs (newExplosion Maximal)
      in bind (claimNext fnValues)
       (\<lambda>(fn, fnValues1). bind (claimNext fnValues1)
       (\<lambda>(data, fnValues2). bind (assert (empty fnValues2) ''fnValues.empty()'')
       (\<lambda>_.
          let args = newArgList Minimal;
              resultSchema = Schema resultType;
              (args1, IGF2) = addResultSlot resultSchema args IGF1;
              (argVs, IGF3) = emitExplodedRValue C (getArg E) IGF2;
              args2 = args1\<lparr>ArgList_Values := add argVs (ArgList_Values args1)\<rparr>;
              (needsData, args3) = addDataArg data args2
          in bind (IRGenModule_getFunctionType (Expr_getType (getFn E)) needsData IGF3)
           (\<lambda>(fnLLVMType, IGF4).
              let (fn', IGF5) = create (BitCast fn (getPointerTo fnLLVMType)) IGF4;
                  (call, IGF6) =
                    create (Call fn' (getAll (ArgList_Values args3)) (ArgList_Attrs args3)) IGF5
              in buildResult resultSchema args3 call IGF6)))))"

text \<open>\<open>IRGenFunction::emitApplyExpr\<close>.\<close>

definition emitApplyExpr ::
  "Collaborators \<Rightarrow> ApplyExpr \<Rightarrow> TypeInfo \<Rightarrow> IRGenFunction
     \<Rightarrow> error + (RValue \<times> IRGenFunction)" where
  "emitApplyExpr C E resultType IGF =
     (case getCalledValue E of
        Some Fn \<Rightarrow>
          if getDeclContext Fn = TheBuiltinModule
          then emitBuiltinCall C Fn (getArg E) resultType IGF
          else emitApplyGeneral C E resultType IGF
      | None \<Rightarrow> emitApplyGeneral C E resultType IGF)"

text \<open>\<open>IRGenFunction::tryEmitApplyAsAddress\<close>; \<open>Nothing\<close> is \<open>None\<close>.\<close>

definition tryEmitApplyAsAddress ::
  "Collaborators \<Rightarrow> ApplyExpr \<Rightarrow> TypeInfo \<Rightarrow> IRGenFunction
     \<Rightarrow> error + (Address option \<times> IRGenFunction)" where
  "tryEmitApplyAsAddress C E resultType IGF =
     (let resultSchema = Schema resultType
      in if \<not> isAggregate resultSchema then Inr (None, IGF)
         else bind (emitApplyExpr C E resultType IGF)
           (\<lambda>(result, IGF').
              bind (assert (\<not> RValue_isScalar result) ''result.isAggregate()'')
                (\<lambda>_. bind (getAggregateAddress result)
                (\<lambda>a. Inr (Some \<lparr>getAddress = a,
                                getAlignment = StorageAlignment resultType\<rparr>, IGF')))))"

section \<open>Function entry\<close>

text \<open>
  \<open>CurParm++\<close>: the next incoming argument. The argument list is an intrusive list whose
  iterator asserts when it is incremented off the end.
\<close>

definition claimParm :: "IRGenFunction \<Rightarrow> nat \<Rightarrow> error + (llvalue \<times> nat)" where
  "claimParm IGF CurParm =
     (if CurParm < length (CurFn_ArgTypes IGF)
      then Inr (Argument CurParm (CurFn_ArgTypes IGF ! CurParm), Suc CurParm)
      else Inl (AssertionFailed ''incremented off the end of the argument list''))"

text \<open>The result slot (the first thing the incoming arguments are consumed for).\<close>

definition setUpResultSlot ::
  "Collaborators \<Rightarrow> swtype \<Rightarrow> nat \<Rightarrow> IRGenFunction \<Rightarrow> error + (nat \<times> IRGenFunction)" where
  "setUpResultSlot C Res CurParm IGF =
     (let resultType = getFragileTypeInfo (IGM IGF) Res;
          resultSchema = Schema resultType
      in if isAggregate resultSchema then
           bind (claimParm IGF CurParm)
             (\<lambda>(V, CurParm').
                Inr (CurParm',
                     IGF\<lparr>ReturnSlot := Some \<lparr>getAddress = V,
                                              getAlignment = StorageAlignment resultType\<rparr>\<rparr>))
         else if schemaIsScalarN C resultSchema 0 then
           bind (assert (ReturnSlot IGF = None) ''!ReturnSlot.isValid()'')
             (\<lambda>_. Inr (CurParm, IGF))
         else
           let (slot, IGF') =
                 createScopeAlloca (StorageType resultType) (StorageAlignment resultType) IGF
           in Inr (CurParm, IGF'\<lparr>ReturnSlot := Some slot\<rparr>))"

text \<open>The scalars of one parameter, each the next incoming argument, of the type the
  schema names.\<close>

fun claimScalars ::
  "IRGenFunction \<Rightarrow> llty list \<Rightarrow> nat \<Rightarrow> llvalue list \<Rightarrow> error + (llvalue list \<times> nat)" where
  "claimScalars IGF [] CurParm Scalars' = Inr (Scalars', CurParm)"
| "claimScalars IGF (ParmType # rest) CurParm Scalars' =
     bind (claimParm IGF CurParm)
       (\<lambda>(V, CurParm').
          bind (assert (getType V = ParmType) ''V->getType() == ParmType'')
            (\<lambda>_. claimScalars IGF rest CurParm' (Scalars' @ [V])))"

text \<open>One round of the loop over the named arguments.\<close>

definition emitParm ::
  "Collaborators \<Rightarrow> ArgDecl \<Rightarrow> nat \<Rightarrow> IRGenFunction
     \<Rightarrow> error + (nat \<times> IRGenFunction)" where
  "emitParm C Parm CurParm IGF =
     (let ParmInfo = getFragileTypeInfo (IGM IGF) (ArgDecl_getType Parm);
          ParmSchema = Schema ParmInfo
      in bind
           (case ParmSchema of
              Aggregate t a \<Rightarrow>
                bind (claimParm IGF CurParm)
                  (\<lambda>(V, CurParm').
                     Inr (\<lparr>getAddress = V, getAlignment = StorageAlignment ParmInfo\<rparr>,
                          CurParm', IGF))
            | Scalars ts \<Rightarrow>
                let (addr, IGF') =
                      createScopeAlloca (StorageType ParmInfo) (StorageAlignment ParmInfo) IGF
                in Inr (addr, CurParm, IGF'))
        (\<lambda>(parmAddr, CurParm1, IGF1).
           bind
             (case ParmSchema of
                Scalars ts \<Rightarrow>
                  bind (claimScalars IGF1 ts CurParm1 [])
                    (\<lambda>(Scalars', CurParm2).
                       bind (TypeInfo_store C (ArgDecl_getType Parm) ParmInfo (forScalars Scalars')
                               parmAddr IGF1)
                         (\<lambda>IGF2. Inr (CurParm2, IGF2)))
              | Aggregate t a \<Rightarrow> Inr (CurParm1, IGF1))
          (\<lambda>(CurParm3, IGF3).
             bind (assert (map_of (Locals IGF3) (ArgDecl_Id Parm) = None) ''!Locals.count(Parm)'')
               (\<lambda>_. Inr (CurParm3,
                         IGF3\<lparr>Locals := Locals IGF3 @ [(ArgDecl_Id Parm, parmAddr)]\<rparr>)))))"

fun emitParms ::
  "Collaborators \<Rightarrow> ArgDecl list \<Rightarrow> nat \<Rightarrow> IRGenFunction
     \<Rightarrow> error + (nat \<times> IRGenFunction)" where
  "emitParms C [] CurParm IGF = Inr (CurParm, IGF)"
| "emitParms C (Parm # Parms) CurParm IGF =
     bind (emitParm C Parm CurParm IGF)
       (\<lambda>(CurParm', IGF'). emitParms C Parms CurParm' IGF')"

text \<open>The start of \<open>emitPrologue\<close>: the entry block, the alloca insertion point, and the
  return block.\<close>

definition setUpBlocks :: "IRGenFunction \<Rightarrow> error + IRGenFunction" where
  "setUpBlocks IGF =
     (let (EntryBB, IGF1) = createBasicBlock IGF
      in bind (assert (CurFn_Blocks IGF1 = []) ''prologue already emitted?'')
       (\<lambda>_.
          let IGF2 = pushBlock EntryBB IGF1;
              IGF3 = SetInsertPointBB EntryBB IGF2;
              (ip, IGF4) = create (Alloca Int1Ty 0) IGF3;
              IGF5 = IGF4\<lparr>AllocaIP := Some ip\<rparr>;
              (RetBB, IGF6) = createBasicBlock IGF5;
              IGF7 = (pushBlock RetBB IGF6)\<lparr>ReturnBB := Some RetBB\<rparr>
          in Inr IGF7))"

text \<open>\<open>IRGenFunction::emitPrologue\<close>.\<close>

definition emitPrologue :: "Collaborators \<Rightarrow> IRGenFunction \<Rightarrow> error + IRGenFunction" where
  "emitPrologue C IGF =
     bind (setUpBlocks IGF)
       (\<lambda>IGF7.
          case CurFuncExpr_Type IGF7 of
            FunctionType Inp Res \<Rightarrow>
              bind (setUpResultSlot C Res 0 IGF7)
                (\<lambda>(CurParm, IGF8).
                   bind (emitParms C (CurFuncExpr_NamedArgs IGF8) CurParm IGF8)
                     (\<lambda>(CurParm', IGF9).
                        bind (assert (CurParm' = length (CurFn_ArgTypes IGF9))
                                ''did not exhaust all parameters?'')
                          (\<lambda>_. Inr IGF9)))
          | _ \<Rightarrow> Inl (AssertionFailed ''emitting a declaration that is not a function?''))"

section \<open>Function exit\<close>

definition eraseBlock :: "nat \<Rightarrow> IRGenFunction \<Rightarrow> IRGenFunction" where
  "eraseBlock bb IGF =
     (perform (EraseBlock bb) IGF)\<lparr>CurFn_Blocks := removeAll bb (CurFn_Blocks IGF)\<rparr>"

text \<open>
  The first half of \<open>emitEpilogue\<close>: the alloca insertion point is destroyed, then the
  return block is resolved by one of four branches. The flag returned is whether the
  function goes on to emit the return (the first branch returns early when the insertion
  point is not valid).
\<close>

definition resolveReturnBB :: "IRGenFunction \<Rightarrow> error + (bool \<times> IRGenFunction)" where
  "resolveReturnBB IGF =
     (case AllocaIP IGF of
        None \<Rightarrow> Inl (NullDereference ''AllocaIP'')
      | Some ip \<Rightarrow>
          let IGF1 = perform (EraseInst ip) IGF
          in (case ReturnBB IGF1 of
               None \<Rightarrow> Inl (NullDereference ''ReturnBB'')
             | Some RetBB \<Rightarrow>
                 if ReturnBB_Uses IGF1 = [] then
                   let IGF2 = eraseBlock RetBB IGF1
                   in Inr (hasValidIP IGF2, IGF2)
                 else if hasValidIP IGF1 then
                   let (br, IGF2) = create (Br RetBB) IGF1;
                       IGF3 = IGF2\<lparr>ReturnBB_Uses :=
                                      ReturnBB_Uses IGF2
                                        @ [BranchInst br (the (InsertBlock IGF2)) True]\<rparr>
                   in Inr (True, SetInsertPointBB RetBB IGF3)
                 else if length (ReturnBB_Uses IGF1) = 1 then
                   (case hd (ReturnBB_Uses IGF1) of
                      BranchInst theBr parent unconditional \<Rightarrow>
                        bind (assert unconditional ''Br->isUnconditional()'')
                          (\<lambda>_.
                             let IGF2 = SetInsertPointBB parent IGF1;
                                 IGF3 = (perform (EraseInst theBr) IGF2)\<lparr>ReturnBB_Uses := []\<rparr>;
                                 IGF4 = eraseBlock RetBB IGF3
                             in Inr (True, IGF4))
                    | OtherUser u \<Rightarrow> Inl (AssertionFailed ''cast<BranchInst>''))
                 else Inr (True, SetInsertPointBB RetBB IGF1)))"

text \<open>The loop that assembles a return value of several scalars.\<close>

primrec insertResults ::
  "llvalue list \<Rightarrow> nat list \<Rightarrow> llvalue \<Rightarrow> IRGenFunction \<Rightarrow> llvalue \<times> IRGenFunction" where
  "insertResults vs [] Result IGF = (Result, IGF)"
| "insertResults vs (I # Is) Result IGF =
     (let (Result', IGF') = create (InsertValue Result (vs ! I) I) IGF
      in insertResults vs Is Result' IGF')"

text \<open>The second half of \<open>emitEpilogue\<close>: the return.\<close>

definition emitReturn :: "Collaborators \<Rightarrow> IRGenFunction \<Rightarrow> error + IRGenFunction" where
  "emitReturn C IGF =
     (case CurFuncExpr_Type IGF of
        FunctionType Inp Res \<Rightarrow>
          let resultType = getFragileTypeInfo (IGM IGF) Res;
              resultSchema = Schema resultType
          in if isAggregate resultSchema then
               bind (assert (case ReturnSlot IGF of
                               Some slot \<Rightarrow> isaArgument (getAddress slot)
                             | None \<Rightarrow> False)
                       ''isa<llvm::Argument>(ReturnSlot.getAddress())'')
                 (\<lambda>_. Inr (snd (create RetVoid IGF)))
             else if schemaIsScalarN C resultSchema 0 then
               bind (assert (ReturnSlot IGF = None) ''!ReturnSlot.isValid()'')
                 (\<lambda>_. Inr (snd (create RetVoid IGF)))
             else
               (case ReturnSlot IGF of
                  None \<Rightarrow> Inl (NullDereference ''ReturnSlot'')
                | Some slot \<Rightarrow>
                    bind (TypeInfo_load C Res resultType slot IGF)
                      (\<lambda>(RV, IGF1).
                         if RValue_isScalarN RV 1 then
                           bind (getScalars RV)
                             (\<lambda>vs. Inr (snd (create (Ret (vs ! 0)) IGF1)))
                         else
                           bind (getScalars RV)
                             (\<lambda>vs.
                                let Result = UndefValue (CurFn_ReturnType IGF1);
                                    (Result', IGF2) =
                                      insertResults vs [0..<length vs] Result IGF1
                                in Inr (snd (create (Ret Result') IGF2)))))
      | _ \<Rightarrow> Inl (AssertionFailed ''emitting a declaration that is not a function?''))"

text \<open>\<open>IRGenFunction::emitEpilogue\<close>.\<close>

definition emitEpilogue :: "Collaborators \<Rightarrow> IRGenFunction \<Rightarrow> error + IRGenFunction" where
  "emitEpilogue C IGF =
     bind (resolveReturnBB IGF)
       (\<lambda>(goOn, IGF'). if \<not> goOn then Inr IGF' else emitReturn C IGF')"

section \<open>What the emitted loads and stores do\<close>

text \<open>
  The meaning of the memory requests, to say what a stored closure reads back as when
  the emitted code runs. A run-time value is the undefined value, what the environment
  gives a global or an argument, the address of an alloca, the address of a field of a
  struct at an address, or the unknown result of any other request.
\<close>

datatype rtval =
    RUndef
  | RGlobal string
  | RArg nat
  | RAlloca nat
  | RField rtval nat
  | ROther nat

record machine =
  Regs :: "nat \<Rightarrow> rtval"
  Memory :: "rtval \<Rightarrow> rtval"

fun evalValue :: "machine \<Rightarrow> llvalue \<Rightarrow> rtval" where
  "evalValue m (UndefValue t) = RUndef"
| "evalValue m (GlobalValue n t) = RGlobal n"
| "evalValue m (Argument i t) = RArg i"
| "evalValue m (InstValue n t) = Regs m n"

text \<open>One event, at its position in the log.\<close>

fun execAction :: "nat \<Rightarrow> action \<Rightarrow> machine \<Rightarrow> machine" where
  "execAction n (Create (Alloca t a)) m = m\<lparr>Regs := (Regs m)(n := RAlloca n)\<rparr>"
| "execAction n (Create (StructGEP p i)) m =
     m\<lparr>Regs := (Regs m)(n := RField (evalValue m p) i)\<rparr>"
| "execAction n (Create (Load p a)) m =
     m\<lparr>Regs := (Regs m)(n := Memory m (evalValue m p))\<rparr>"
| "execAction n (Create (Store v p a)) m =
     m\<lparr>Memory := (Memory m)(evalValue m p := evalValue m v)\<rparr>"
| "execAction n (Create i) m = m\<lparr>Regs := (Regs m)(n := ROther n)\<rparr>"
| "execAction n a m = m"

text \<open>The events from position \<open>n\<close> on, in order.\<close>

fun execFrom :: "nat \<Rightarrow> action list \<Rightarrow> machine \<Rightarrow> machine" where
  "execFrom n [] m = m"
| "execFrom n (a # as) m = execFrom (Suc n) as (execAction n a m)"

text \<open>A value that exists before position \<open>n\<close> of the log.\<close>

fun definedBefore :: "nat \<Rightarrow> llvalue \<Rightarrow> bool" where
  "definedBefore n (InstValue k t) = (k < n)"
| "definedBefore n v = True"

section \<open>Counting and reading off, for the statements below\<close>

text \<open>
  The number of incoming low-level arguments that the bindings of the prologue call for:
  one for an aggregate result, and for each parameter one pointer (aggregate schema) or
  one per scalar of its schema.
\<close>

definition schemaArgCount :: "RValueSchema \<Rightarrow> nat" where
  "schemaArgCount s = (case s of Aggregate t a \<Rightarrow> 1 | Scalars ts \<Rightarrow> length ts)"

definition expectedArgCount :: "IRGenModule \<Rightarrow> swtype \<Rightarrow> ArgDecl list \<Rightarrow> nat" where
  "expectedArgCount M Res Parms =
     (if isAggregate (Schema (getFragileTypeInfo M Res)) then 1 else 0)
     + sum_list (map (\<lambda>P. schemaArgCount (Schema (getFragileTypeInfo M (ArgDecl_getType P)))) Parms)"

text \<open>
  The types of those incoming arguments, as \<open>getFunctionType\<close> lays them out: what
  \<open>resultTypeInfo\<close> prepends for the result, then what \<open>addArgType\<close> adds for each
  parameter.
\<close>

definition expectedArgTypes :: "IRGenModule \<Rightarrow> swtype \<Rightarrow> ArgDecl list \<Rightarrow> llty list" where
  "expectedArgTypes M Res Parms =
     snd (resultTypeInfo M (Schema (getFragileTypeInfo M Res)))
     @ concat (map (\<lambda>P. addArgType M (ArgDecl_getType P) []) Parms)"

text \<open>The argument list of a logged call.\<close>

fun callArguments :: "action \<Rightarrow> llvalue list" where
  "callArguments (Create (Call f xs as)) = xs"
| "callArguments a = []"

section \<open>A small module, for concrete runs\<close>

text \<open>
  A 64-bit target with four named types: \<open>Int\<close> and \<open>Double\<close> of one scalar, \<open>Pair\<close> of
  two scalars, \<open>Big\<close> passed by address; every other type has no scalars.
\<close>

definition demoTypeInfo :: "swtype \<Rightarrow> TypeInfo" where
  "demoTypeInfo Ty =
     (if Ty = NominalType ''Int''
        then \<lparr>StorageType = IntegerTy 64, StorageSize = 8, StorageAlignment = 8,
               Schema = Scalars [IntegerTy 64]\<rparr>
      else if Ty = NominalType ''Double''
        then \<lparr>StorageType = DoubleTy, StorageSize = 8, StorageAlignment = 8,
               Schema = Scalars [DoubleTy]\<rparr>
      else if Ty = NominalType ''Pair''
        then \<lparr>StorageType = StructTy [IntegerTy 64, IntegerTy 32], StorageSize = 16,
               StorageAlignment = 8, Schema = Scalars [IntegerTy 64, IntegerTy 32]\<rparr>
      else if Ty = NominalType ''Big''
        then \<lparr>StorageType = StructTy [IntegerTy 64, IntegerTy 64, IntegerTy 64],
               StorageSize = 24, StorageAlignment = 8,
               Schema = Aggregate (StructTy [IntegerTy 64, IntegerTy 64, IntegerTy 64]) 8\<rparr>
      else \<lparr>StorageType = StructTy [], StorageSize = 0, StorageAlignment = 1,
             Schema = Scalars []\<rparr>)"

definition demoIGM :: IRGenModule where
  "demoIGM = \<lparr>PointerSize = 8, PointerABIAlignment = 8, OtherTypeInfo = demoTypeInfo\<rparr>"

text \<open>
  Expression lowering for five expressions: a reference to the global function \<open>f\<close>
  (its data pointer undefined), a pair of integer arguments, a closure held in two
  arguments, a pair of floating-point operands, and one integer argument.
\<close>

definition demoEmit :: "Expr \<Rightarrow> IRGenFunction \<Rightarrow> llvalue list \<times> IRGenFunction" where
  "demoEmit e IGF =
     (if ExprId e = 0 then ([GlobalValue ''f'' Int8PtrTy, UndefValue Int8PtrTy], IGF)
      else if ExprId e = 1 then ([Argument 0 (IntegerTy 64), Argument 1 (IntegerTy 64)], IGF)
      else if ExprId e = 2 then ([Argument 2 Int8PtrTy, Argument 3 Int8PtrTy], IGF)
      else if ExprId e = 3 then ([Argument 0 DoubleTy, Argument 1 DoubleTy], IGF)
      else if ExprId e = 4 then ([Argument 0 (IntegerTy 64)], IGF)
      else ([], IGF))"

definition demoStore :: "TypeInfo \<Rightarrow> RValue \<Rightarrow> Address \<Rightarrow> nat \<Rightarrow> error + inst list" where
  "demoStore TI RV address n =
     (case RV of
        forScalars vs \<Rightarrow>
          if length vs = 1
          then Inr [Store (vs ! 0) (getAddress address) (getAlignment address)]
          else Inr (concat (map (\<lambda>k. [StructGEP (getAddress address) k,
                                       Store (vs ! k)
                                         (InstValue (n + 2 * k)
                                            (instType (StructGEP (getAddress address) k)))
                                         (getAlignment address)])
                              [0..<length vs]))
      | forAggregate a \<Rightarrow>
          Inl (AssertionFailed ''storing an aggregate r-value into a scalar slot''))"

definition demoLoad :: "TypeInfo \<Rightarrow> Address \<Rightarrow> nat \<Rightarrow> error + (RValue \<times> inst list)" where
  "demoLoad TI address n =
     (case Schema TI of
        Scalars ts \<Rightarrow>
          if length ts = 1
          then Inr (forScalars [InstValue n (ts ! 0)],
                    [Load (getAddress address) (getAlignment address)])
          else Inr (forScalars (map (\<lambda>k. InstValue (n + 2 * k + 1) (ts ! k)) [0..<length ts]),
                    concat (map (\<lambda>k. [StructGEP (getAddress address) k,
                                       Load (InstValue (n + 2 * k)
                                               (instType (StructGEP (getAddress address) k)))
                                         (getAlignment address)])
                              [0..<length ts]))
      | Aggregate t a \<Rightarrow> Inr (forAggregate (getAddress address), []))"

text \<open>
  Two tests that \<open>schemaIsScalarN\<close> may be: that the schema is of exactly \<open>n\<close> scalars, and
  that the scalar at index \<open>n\<close> is the schema's only one. The concrete runs below use the
  first; \<open>demoOtherC\<close> is the same collaborators with the second.
\<close>

definition scalarCountIs :: "RValueSchema \<Rightarrow> nat \<Rightarrow> bool" where
  "scalarCountIs s n = (case s of Aggregate t a \<Rightarrow> False | Scalars ts \<Rightarrow> length ts = n)"

definition soleScalarAt :: "RValueSchema \<Rightarrow> nat \<Rightarrow> bool" where
  "soleScalarAt s n =
     (case s of Aggregate t a \<Rightarrow> False | Scalars ts \<Rightarrow> length ts = 1 \<and> n = 0)"

definition demoC :: Collaborators where
  "demoC = \<lparr>emitExplodedRValue = demoEmit, storeOther = demoStore, loadOther = demoLoad,
            alignmentAtOffset = (\<lambda>a off. min a off),
            getAddrOfGlobalFunction = (\<lambda>Fn. GlobalValue (getName Fn) Int8PtrTy),
            schemaIsScalarN = scalarCountIs\<rparr>"

definition demoOtherC :: Collaborators where
  "demoOtherC = demoC\<lparr>schemaIsScalarN := soleScalarAt\<rparr>"

text \<open>A function about to be emitted: its low-level argument types and return type, its
  source type and its named arguments; nothing emitted yet, every descriptor fresh.\<close>

definition demoFunction ::
  "llty list \<Rightarrow> llty \<Rightarrow> swtype \<Rightarrow> ArgDecl list \<Rightarrow> IRGenFunction" where
  "demoFunction ArgTypes RetTy FnTy NamedArgs =
     \<lparr>IGM = demoIGM, FuncTypeInfos = convertFunctionType demoIGM, Log = [],
      InsertBlock = None, NextBlock = 0, CurFn_Blocks = [], CurFn_ArgTypes = ArgTypes,
      CurFn_ReturnType = RetTy, CurFuncExpr_Type = FnTy, CurFuncExpr_NamedArgs = NamedArgs,
      AllocaIP = None, ReturnBB = None, ReturnBB_Uses = [], ReturnSlot = None, Locals = []\<rparr>"

text \<open>The function \<open>(a : Int, b : Pair, c : Double) -> Big\<close> with the given incoming
  arguments, and the functions \<open>(a : Int) -> Int\<close> and \<open>() -> ()\<close>.\<close>

definition demoBigParms :: "ArgDecl list" where
  "demoBigParms =
     [\<lparr>ArgDecl_Id = 0, ArgDecl_getName = ''a'', ArgDecl_getType = NominalType ''Int''\<rparr>,
      \<lparr>ArgDecl_Id = 1, ArgDecl_getName = ''b'', ArgDecl_getType = NominalType ''Pair''\<rparr>,
      \<lparr>ArgDecl_Id = 2, ArgDecl_getName = ''c'', ArgDecl_getType = NominalType ''Double''\<rparr>]"

definition demoFnBig :: "llty list \<Rightarrow> IRGenFunction" where
  "demoFnBig ArgTypes =
     demoFunction ArgTypes VoidTy
       (FunctionType (TupleType [NominalType ''Int'', NominalType ''Pair'', NominalType ''Double''])
          (NominalType ''Big''))
       demoBigParms"

definition demoFnInt :: IRGenFunction where
  "demoFnInt =
     demoFunction [IntegerTy 64] (IntegerTy 64)
       (FunctionType (NominalType ''Int'') (NominalType ''Int''))
       [\<lparr>ArgDecl_Id = 0, ArgDecl_getName = ''a'', ArgDecl_getType = NominalType ''Int''\<rparr>]"

text \<open>The function \<open>(a : Int, a : Int) -> ()\<close>: two declarations of one name.\<close>

definition demoSameNameParms :: "ArgDecl list" where
  "demoSameNameParms =
     [\<lparr>ArgDecl_Id = 0, ArgDecl_getName = ''a'', ArgDecl_getType = NominalType ''Int''\<rparr>,
      \<lparr>ArgDecl_Id = 1, ArgDecl_getName = ''a'', ArgDecl_getType = NominalType ''Int''\<rparr>]"

definition demoFnSameName :: IRGenFunction where
  "demoFnSameName =
     demoFunction [IntegerTy 64, IntegerTy 64] VoidTy
       (FunctionType (TupleType [NominalType ''Int'', NominalType ''Int'']) (TupleType []))
       demoSameNameParms"

definition demoFnVoid :: IRGenFunction where
  "demoFnVoid = demoFunction [] VoidTy (FunctionType (TupleType []) (TupleType [])) []"

text \<open>Three calls: of the global \<open>f\<close> (no context) with a \<open>Big\<close> result, of a closure
  with a \<open>Pair\<close> result, and of the global \<open>f\<close> with an \<open>Int\<close> result.\<close>

definition demoCallBig :: ApplyExpr where
  "demoCallBig =
     \<lparr>getCalledValue = None,
      getFn = \<lparr>ExprId = 0,
               Expr_getType = FunctionType (TupleType [NominalType ''Int'', NominalType ''Int''])
                                (NominalType ''Big'')\<rparr>,
      getArg = \<lparr>ExprId = 1,
                Expr_getType = TupleType [NominalType ''Int'', NominalType ''Int'']\<rparr>\<rparr>"

definition demoCallPair :: ApplyExpr where
  "demoCallPair =
     \<lparr>getCalledValue = None,
      getFn = \<lparr>ExprId = 2,
               Expr_getType = FunctionType (TupleType [NominalType ''Int'', NominalType ''Int''])
                                (NominalType ''Pair'')\<rparr>,
      getArg = \<lparr>ExprId = 1,
                Expr_getType = TupleType [NominalType ''Int'', NominalType ''Int'']\<rparr>\<rparr>"

definition demoCallInt :: ApplyExpr where
  "demoCallInt =
     \<lparr>getCalledValue = None,
      getFn = \<lparr>ExprId = 0,
               Expr_getType = FunctionType (TupleType [NominalType ''Int'', NominalType ''Int''])
                                (NominalType ''Int'')\<rparr>,
      getArg = \<lparr>ExprId = 1,
                Expr_getType = TupleType [NominalType ''Int'', NominalType ''Int'']\<rparr>\<rparr>"

text \<open>The builtin \<open>add\<close>.\<close>

definition demoAdd :: FuncDecl where
  "demoAdd = \<lparr>getName = ''add'', getDeclContext = TheBuiltinModule, isBuiltinValue = Add\<rparr>"

text \<open>A machine to run emitted loads and stores on.\<close>

definition demoMachine :: machine where
  "demoMachine = \<lparr>Regs = (\<lambda>n. RUndef), Memory = (\<lambda>a. RUndef)\<rparr>"

text \<open>The five incoming arguments of the function with the \<open>Big\<close> result: the return
  slot, one scalar for \<open>a\<close>, two for \<open>b\<close> and one for \<open>c\<close>.\<close>

definition demoFiveArgs :: "llty list" where
  "demoFiveArgs =
     [PointerTy (StructTy [IntegerTy 64, IntegerTy 64, IntegerTy 64]),
      IntegerTy 64, IntegerTy 64, IntegerTy 32, DoubleTy]"

text \<open>A closure-shaped slot, held in an argument, and the descriptor of a function type.\<close>

definition demoClosureSlot :: Address where
  "demoClosureSlot =
     \<lparr>getAddress = Argument 0 (PointerTy (StructTy [Int8PtrTy, Int8PtrTy])),
      getAlignment = 8\<rparr>"

definition demoClosureInfo :: TypeInfo where
  "demoClosureInfo =
     getFragileTypeInfo demoIGM (FunctionType (NominalType ''Int'') (NominalType ''Int''))"

text \<open>The function \<open>(a : Int) -> Int\<close> after its prologue and a body that has left one
  unconditional branch to the return block, in block 7.\<close>

definition demoBodyOneReturn :: IRGenFunction where
  "demoBodyOneReturn =
     (projr (emitPrologue demoC demoFnInt))
       \<lparr>ReturnBB_Uses := [BranchInst (InstValue 9 VoidTy) 7 True]\<rparr>"

section \<open>The derived signature\<close>

lemma computeFunctionType_cache_upd [simp]:
  "computeFunctionType M (fti\<lparr>FunctionTypeWithData := x\<rparr>) b = computeFunctionType M fti b"
  "computeFunctionType M (fti\<lparr>FunctionTypeWithoutData := y\<rparr>) b = computeFunctionType M fti b"
  by (simp_all add: computeFunctionType_def split: prod.splits swtype.splits)

lemma computeFunctionType_after [simp]:
  "computeFunctionType M (snd (getFunctionType M fti b)) c = computeFunctionType M fti c"
  by (simp add: getFunctionType_def Let_def)

text \<open>A cache that is set holds the type that the computation gives.\<close>

lemma reachable_cache:
  "reachable M fti \<Longrightarrow>
     (FunctionTypeWithData fti = None \<or>
        FunctionTypeWithData fti = Some (computeFunctionType M fti True)) \<and>
     (FunctionTypeWithoutData fti = None \<or>
        FunctionTypeWithoutData fti = Some (computeFunctionType M fti False))"
proof (induction rule: reachable.induct)
  case (fresh i r)
  show ?case by (simp add: convertFunctionType_def Let_def)
next
  case (step fti b)
  then show ?case by (auto simp add: getFunctionType_def Let_def)
qed

lemma reachable_result:
  "reachable M fti \<Longrightarrow> fst (getFunctionType M fti b) = computeFunctionType M fti b"
  using reachable_cache [of M fti] by (auto simp add: getFunctionType_def Let_def)

lemma addArgType_append: "addArgType M Ty (xs @ ys) = xs @ addArgType M Ty ys"
  by (simp add: addArgType_def split: RValueSchema.splits)

lemma foldl_addArgType_append:
  "foldl (\<lambda>acc Field. addArgType M Field acc) (xs @ ys) Fields =
     xs @ foldl (\<lambda>acc Field. addArgType M Field acc) ys Fields"
  by (induction Fields arbitrary: ys) (simp_all add: addArgType_append)

lemma computeFunctionType_shape:
  "\<exists>ps. computeFunctionType M fti b =
     FunctionTy (fst (resultTypeInfo M (Schema (getFragileTypeInfo M (FnTy_Result fti)))))
                (snd (resultTypeInfo M (Schema (getFragileTypeInfo M (FnTy_Result fti)))) @ ps)"
proof -
  obtain rt as0 where
    r: "resultTypeInfo M (Schema (getFragileTypeInfo M (FnTy_Result fti))) = (rt, as0)"
    by (cases "resultTypeInfo M (Schema (getFragileTypeInfo M (FnTy_Result fti)))")
  have a: "addArgType M Ty as0 = as0 @ addArgType M Ty []" for Ty
    using addArgType_append [of M Ty as0 "[]"] by simp
  have f: "foldl (\<lambda>acc Field. addArgType M Field acc) as0 Fields =
           as0 @ foldl (\<lambda>acc Field. addArgType M Field acc) [] Fields" for Fields
    using foldl_addArgType_append [of M as0 "[]" Fields] by simp
  show ?thesis
    by (cases "FnTy_Input fti") (simp_all add: computeFunctionType_def r Let_def a f)
qed

text \<open>
  Claim C1. For every function-type descriptor that a compilation can hold and either
  flag, the return type of the signature follows the four-way rule on the schema of the
  result type: an aggregate result gives void and a pointer to the aggregate type as the
  first parameter; no scalar gives void; one scalar gives that scalar's type; several
  scalars give the struct of those types, in schema order.
\<close>

theorem getFunctionType_return_rule:
  assumes "reachable M fti"
  shows "case Schema (getFragileTypeInfo M (FnTy_Result fti)) of
           Aggregate t a \<Rightarrow>
             (\<exists>ps. fst (getFunctionType M fti NeedsData) = FunctionTy VoidTy (PointerTy t # ps))
         | Scalars ts \<Rightarrow>
             (\<exists>ps. fst (getFunctionType M fti NeedsData) =
                FunctionTy (if ts = [] then VoidTy
                            else if length ts = 1 then hd ts
                            else StructTy ts) ps)"
proof -
  have c: "fst (getFunctionType M fti NeedsData) = computeFunctionType M fti NeedsData"
    using assms by (rule reachable_result)
  obtain ps where ps: "computeFunctionType M fti NeedsData =
     FunctionTy (fst (resultTypeInfo M (Schema (getFragileTypeInfo M (FnTy_Result fti)))))
                (snd (resultTypeInfo M (Schema (getFragileTypeInfo M (FnTy_Result fti)))) @ ps)"
    using computeFunctionType_shape by blast
  show ?thesis
  proof (cases "Schema (getFragileTypeInfo M (FnTy_Result fti))")
    case (Aggregate t a)
    then show ?thesis using c ps by (simp add: resultTypeInfo_def getPointerTo_def)
  next
    case (Scalars ts)
    then show ?thesis using c ps
      by (cases ts) (simp_all add: resultTypeInfo_def)
  qed
qed

lemma demo_schemas:
  "Schema (getFragileTypeInfo demoIGM (NominalType ''Big'')) =
     Aggregate (StructTy [IntegerTy 64, IntegerTy 64, IntegerTy 64]) 8"
  "Schema (getFragileTypeInfo demoIGM (NominalType ''Pair'')) =
     Scalars [IntegerTy 64, IntegerTy 32]"
  "Schema (getFragileTypeInfo demoIGM (NominalType ''Int'')) = Scalars [IntegerTy 64]"
  "Schema (getFragileTypeInfo demoIGM (NominalType ''Double'')) = Scalars [DoubleTy]"
  "Schema (getFragileTypeInfo demoIGM (TupleType [])) = Scalars []"
  by (simp_all add: getFragileTypeInfo_def demoIGM_def demoTypeInfo_def)

theorem getFunctionType_return_rule_witness:
  "reachable demoIGM
     (convertFunctionType demoIGM (TupleType [NominalType ''Int'', NominalType ''Pair''])
        (NominalType ''Big''))
   \<and> (\<exists>ps. fst (getFunctionType demoIGM
                  (convertFunctionType demoIGM
                     (TupleType [NominalType ''Int'', NominalType ''Pair''])
                     (NominalType ''Big'')) True)
        = FunctionTy VoidTy
            (PointerTy (StructTy [IntegerTy 64, IntegerTy 64, IntegerTy 64]) # ps))"
proof -
  have h: "reachable demoIGM
     (convertFunctionType demoIGM (TupleType [NominalType ''Int'', NominalType ''Pair''])
        (NominalType ''Big''))"
    by (rule reachable.fresh)
  have r: "FnTy_Result
     (convertFunctionType demoIGM (TupleType [NominalType ''Int'', NominalType ''Pair''])
        (NominalType ''Big'')) = NominalType ''Big''"
    by (simp add: convertFunctionType_def Let_def)
  show ?thesis
    using h getFunctionType_return_rule [OF h, of True] by (simp add: demo_schemas r)
qed

text \<open>
  Claim C4. Two calls of \<open>getFunctionType\<close> with the same flag return the same
  signature, the second from the cache (whatever module it is given, and leaving the
  descriptor as it is); the call with one flag leaves the cache of the other flag as it
  was; and a call with the other flag in between changes nothing of this.
\<close>

theorem getFunctionType_memoized:
  "fst (getFunctionType M' (snd (getFunctionType M fti b)) b) = fst (getFunctionType M fti b)
   \<and> snd (getFunctionType M' (snd (getFunctionType M fti b)) b) = snd (getFunctionType M fti b)
   \<and> (if b then FunctionTypeWithData (snd (getFunctionType M fti b))
       else FunctionTypeWithoutData (snd (getFunctionType M fti b)))
       = Some (fst (getFunctionType M fti b))
   \<and> FunctionTypeWithoutData (snd (getFunctionType M fti True)) = FunctionTypeWithoutData fti
   \<and> FunctionTypeWithData (snd (getFunctionType M fti False)) = FunctionTypeWithData fti
   \<and> fst (getFunctionType M'' (snd (getFunctionType M' (snd (getFunctionType M fti b)) (\<not> b))) b)
       = fst (getFunctionType M fti b)"
  by (cases b) (auto simp add: getFunctionType_def Let_def)

theorem getFunctionType_memoized_witness:
  "fst (getFunctionType demoIGM
          (snd (getFunctionType demoIGM
                  (convertFunctionType demoIGM
                     (TupleType [NominalType ''Int'', NominalType ''Int''])
                     (NominalType ''Int'')) False)) False)
     = FunctionTy (IntegerTy 64) [IntegerTy 64, IntegerTy 64]
   \<and> FunctionTypeWithData
       (snd (getFunctionType demoIGM
               (convertFunctionType demoIGM
                  (TupleType [NominalType ''Int'', NominalType ''Int''])
                  (NominalType ''Int'')) False)) = None"
  using getFunctionType_memoized
          [of demoIGM demoIGM
              "convertFunctionType demoIGM
                 (TupleType [NominalType ''Int'', NominalType ''Int''])
                 (NominalType ''Int'')" False demoIGM]
  by (simp add: getFunctionType_def computeFunctionType_def resultTypeInfo_def addArgType_def
        demo_schemas convertFunctionType_def Let_def)

section \<open>Calls through the general path\<close>

lemma emitApplyGeneral_eq:
  assumes callee: "emitExplodedRValue C (getFn E) IGF = ([fn, data], IGF1)"
      and slot: "addResultSlot (Schema resultType) (newArgList Minimal) IGF1 = (args1, IGF2)"
      and explicit: "emitExplodedRValue C (getArg E) IGF2 = (argVs, IGF3)"
      and fnty: "Expr_getType (getFn E) = FunctionType i r"
      and sig: "getFunctionType (IGM IGF3) (FuncTypeInfos IGF3 i r) (\<not> isaUndefValue data)
                  = (fnLLVMType, fti')"
  shows "emitApplyGeneral C E resultType IGF =
           (let args3 = snd (addDataArg data
                               (args1\<lparr>ArgList_Values := add argVs (ArgList_Values args1)\<rparr>));
                IGF4 = setFuncTypeInfo (FunctionType i r) fti' IGF3;
                fn' = InstValue (length (Log IGF3)) (PointerTy fnLLVMType);
                theCall = Call fn' (getAll (ArgList_Values args3)) (ArgList_Attrs args3);
                call = InstValue (Suc (length (Log IGF3))) (instType theCall);
                IGF6 = IGF4\<lparr>Log := Log IGF3 @ [Create (BitCast fn (PointerTy fnLLVMType)),
                                                  Create theCall]\<rparr>
            in buildResult (Schema resultType) args3 call IGF6)"
  unfolding emitApplyGeneral_def
  by (simp add: callee slot explicit fnty sig Let_def addDataArg_def
        claimNext_def add_def newExplosion_def assert_def empty_def
        IRGenModule_getFunctionType_def getFuncTypeInfo_def bind_def create_def
        setFuncTypeInfo_def getPointerTo_def)

lemma addResultSlot_Aggregate:
  "addResultSlot (Aggregate t a) (newArgList Minimal) IGF1 =
     (\<lparr>ArgList_Values = \<lparr>Kind = Minimal,
                            Values = [InstValue (length (Log IGF1)) (PointerTy t)],
                            NextValue = 0\<rparr>,
       ArgList_Attrs = [(1, {StructRet, NoAlias})]\<rparr>,
      IGF1\<lparr>Log := Log IGF1 @ [Create (Alloca t a)]\<rparr>)"
  by (simp add: addResultSlot_def createFullExprAlloca_def create_def newArgList_def
        newExplosion_def add_def)

lemma addResultSlot_Scalars:
  "addResultSlot (Scalars ts) (newArgList Minimal) IGF1 = (newArgList Minimal, IGF1)"
  by (simp add: addResultSlot_def)

lemma addResultSlot_values:
  "addResultSlot sch (newArgList Minimal) IGF1 = (args1, IGF2) \<Longrightarrow>
   Values (ArgList_Values args1) =
     (case sch of Aggregate t a \<Rightarrow> [InstValue (length (Log IGF1)) (PointerTy t)]
      | Scalars ts \<Rightarrow> [])
   \<and> NextValue (ArgList_Values args1) = 0"
  by (cases sch)
     (auto simp add: addResultSlot_def createFullExprAlloca_def create_def newArgList_def
        newExplosion_def add_def)

lemma extractResults_eq:
  "extractResults call Is acc IGF =
     (acc @ map (\<lambda>(k, I). InstValue k (instType (ExtractValue call I)))
              (enumerate (length (Log IGF)) Is),
      IGF\<lparr>Log := Log IGF @ map (\<lambda>I. Create (ExtractValue call I)) Is\<rparr>)"
proof (induction Is arbitrary: acc IGF)
  case Nil
  then show ?case by simp
next
  case (Cons I Is)
  show ?case
    by (simp add: create_def Cons.IH del: instType.simps)
qed

lemma enumerate_upt:
  "enumerate n [0..<N] = map (\<lambda>I. (n + I, I)) [0..<N]"
  by (rule nth_equalityI) (simp_all add: nth_enumerate_eq)

lemma extractResults_upt:
  "extractResults call [0..<N] [] IGF =
     (map (\<lambda>I. InstValue (length (Log IGF) + I) (instType (ExtractValue call I))) [0..<N],
      IGF\<lparr>Log := Log IGF @ map (\<lambda>I. Create (ExtractValue call I)) [0..<N]\<rparr>)"
  by (simp add: extractResults_eq enumerate_upt o_def del: instType.simps)

lemma emitApplyExpr_general:
  "\<forall>Fn. getCalledValue E = Some Fn \<longrightarrow> getDeclContext Fn \<noteq> TheBuiltinModule \<Longrightarrow>
   emitApplyExpr C E resultType IGF = emitApplyGeneral C E resultType IGF"
  by (simp add: emitApplyExpr_def split: option.splits)

lemma getFunctionType_cache_set:
  "getFunctionType M fti b = (sig, fti') \<Longrightarrow>
   (if b then FunctionTypeWithData fti' else FunctionTypeWithoutData fti') = Some sig"
  by (auto simp add: getFunctionType_def Let_def split: if_splits)

lemma buildResult_log:
  "buildResult sch args call IGF = Inr (RV, IGF') \<Longrightarrow>
   \<exists>rest. Log IGF' = Log IGF @ rest \<and> (\<forall>a \<in> set rest. \<exists>I. a = Create (ExtractValue call I))"
  by (auto simp add: buildResult_def bind_def extractResults_upt
        split: RValueSchema.splits sum.splits if_splits)

lemma buildResult_total:
  "(isAggregate sch \<longrightarrow> NextValue (ArgList_Values args) < length (Values (ArgList_Values args))) \<Longrightarrow>
   \<exists>RV IGF'. buildResult sch args call IGF = Inr (RV, IGF')"
  by (auto simp add: buildResult_def bind_def claimNext_def extractResults_upt
        split: RValueSchema.splits)

text \<open>
  Claim C2, as amended. For every call emitted through the general path (the callee is
  no builtin, and its lowering gives the two values \<open>fn\<close> and \<open>data\<close>): the call is
  emitted; if \<open>data\<close> is the undefined value the signature is requested without data and
  the argument list of the call is the return slot (present exactly for an aggregate
  result) followed by exactly the flattened explicit arguments, with no trailing context
  argument; for any other \<open>data\<close> the signature is requested with data and \<open>data\<close> is
  appended as the one trailing argument. The callee is cast to the pointer to that
  signature, and nothing but result extractions follows the call.
\<close>

theorem call_context_elision:
  assumes notbuiltin:
        "\<forall>Fn. getCalledValue E = Some Fn \<longrightarrow> getDeclContext Fn \<noteq> TheBuiltinModule"
      and callee: "emitExplodedRValue C (getFn E) IGF = ([fn, data], IGF1)"
      and slot: "addResultSlot (Schema resultType) (newArgList Minimal) IGF1 = (args1, IGF2)"
      and explicit: "emitExplodedRValue C (getArg E) IGF2 = (argVs, IGF3)"
      and fnty: "Expr_getType (getFn E) = FunctionType i r"
  shows "\<exists>RV IGF' sig fti' rest.
           emitApplyExpr C E resultType IGF = Inr (RV, IGF')
         \<and> getFunctionType (IGM IGF3) (FuncTypeInfos IGF3 i r) (\<not> isaUndefValue data) = (sig, fti')
         \<and> (if isaUndefValue data then FunctionTypeWithoutData fti' = Some sig
             else FunctionTypeWithData fti' = Some sig)
         \<and> Log IGF' =
               Log IGF3 @
               [Create (BitCast fn (PointerTy sig)),
                Create (Call (InstValue (length (Log IGF3)) (PointerTy sig))
                          (Values (ArgList_Values args1) @ argVs
                             @ (if isaUndefValue data then [] else [data]))
                          (ArgList_Attrs args1))] @ rest
         \<and> (\<forall>a \<in> set rest. \<exists>v I. a = Create (ExtractValue v I))
         \<and> Values (ArgList_Values args1) =
               (case Schema resultType of
                  Aggregate t a \<Rightarrow> [InstValue (length (Log IGF1)) (PointerTy t)]
                | Scalars ts \<Rightarrow> [])"
proof -
  obtain sig fti' where sig:
    "getFunctionType (IGM IGF3) (FuncTypeInfos IGF3 i r) (\<not> isaUndefValue data) = (sig, fti')"
    by (cases "getFunctionType (IGM IGF3) (FuncTypeInfos IGF3 i r) (\<not> isaUndefValue data)")
  have cache: "if isaUndefValue data then FunctionTypeWithoutData fti' = Some sig
               else FunctionTypeWithData fti' = Some sig"
    using getFunctionType_cache_set [OF sig] by (simp split: if_splits)
  have vals: "Values (ArgList_Values args1) =
               (case Schema resultType of
                  Aggregate t a \<Rightarrow> [InstValue (length (Log IGF1)) (PointerTy t)]
                | Scalars ts \<Rightarrow> [])"
    and nv: "NextValue (ArgList_Values args1) = 0"
    using addResultSlot_values [OF slot] by simp_all
  define args3 where
    "args3 = snd (addDataArg data (args1\<lparr>ArgList_Values := add argVs (ArgList_Values args1)\<rparr>))"
  have all: "getAll (ArgList_Values args3) =
               Values (ArgList_Values args1) @ argVs @ (if isaUndefValue data then [] else [data])"
    and attrs: "ArgList_Attrs args3 = ArgList_Attrs args1"
    and nv3: "NextValue (ArgList_Values args3) = 0"
    and v3: "Values (ArgList_Values args3) =
               Values (ArgList_Values args1) @ argVs @ (if isaUndefValue data then [] else [data])"
    by (simp_all add: args3_def addDataArg_def getAll_def add_def nv Let_def)
  define IGF6 where
    "IGF6 = (setFuncTypeInfo (FunctionType i r) fti' IGF3)
              \<lparr>Log := Log IGF3 @
                 [Create (BitCast fn (PointerTy sig)),
                  Create (Call (InstValue (length (Log IGF3)) (PointerTy sig))
                            (getAll (ArgList_Values args3)) (ArgList_Attrs args3))]\<rparr>"
  define call where
    "call = InstValue (Suc (length (Log IGF3)))
              (instType (Call (InstValue (length (Log IGF3)) (PointerTy sig))
                            (getAll (ArgList_Values args3)) (ArgList_Attrs args3)))"
  have eq: "emitApplyExpr C E resultType IGF = buildResult (Schema resultType) args3 call IGF6"
    using emitApplyGeneral_eq [OF callee slot explicit fnty sig]
    by (simp add: emitApplyExpr_general [OF notbuiltin] args3_def IGF6_def call_def Let_def
          del: instType.simps)
  have pre: "isAggregate (Schema resultType) \<longrightarrow>
               NextValue (ArgList_Values args3) < length (Values (ArgList_Values args3))"
    by (cases "Schema resultType") (simp_all add: nv3 v3 vals)
  obtain RV IGF' where res: "buildResult (Schema resultType) args3 call IGF6 = Inr (RV, IGF')"
    using buildResult_total [OF pre] by blast
  obtain rest where rest: "Log IGF' = Log IGF6 @ rest"
      "\<forall>a \<in> set rest. \<exists>I. a = Create (ExtractValue call I)"
    using buildResult_log [OF res] by blast
  have logeq: "Log IGF' =
               Log IGF3 @
               [Create (BitCast fn (PointerTy sig)),
                Create (Call (InstValue (length (Log IGF3)) (PointerTy sig))
                          (Values (ArgList_Values args1) @ argVs
                             @ (if isaUndefValue data then [] else [data]))
                          (ArgList_Attrs args1))] @ rest"
    using rest(1) by (simp add: IGF6_def all attrs)
  have restp: "\<forall>a \<in> set rest. \<exists>v I. a = Create (ExtractValue v I)"
    using rest(2) by blast
  show ?thesis
  proof (intro exI conjI)
    show "emitApplyExpr C E resultType IGF = Inr (RV, IGF')"
      using eq res by simp
    show "getFunctionType (IGM IGF3) (FuncTypeInfos IGF3 i r) (\<not> isaUndefValue data)
            = (sig, fti')"
      by (rule sig)
    show "if isaUndefValue data then FunctionTypeWithoutData fti' = Some sig
          else FunctionTypeWithData fti' = Some sig"
      by (rule cache)
    show "Log IGF' =
               Log IGF3 @
               [Create (BitCast fn (PointerTy sig)),
                Create (Call (InstValue (length (Log IGF3)) (PointerTy sig))
                          (Values (ArgList_Values args1) @ argVs
                             @ (if isaUndefValue data then [] else [data]))
                          (ArgList_Attrs args1))] @ rest"
      by (rule logeq)
    show "\<forall>a \<in> set rest. \<exists>v I. a = Create (ExtractValue v I)"
      by (rule restp)
    show "Values (ArgList_Values args1) =
               (case Schema resultType of
                  Aggregate t a \<Rightarrow> [InstValue (length (Log IGF1)) (PointerTy t)]
                | Scalars ts \<Rightarrow> [])"
      by (rule vals)
  qed
qed


lemma buildResult_aggregate:
  "buildResult (Aggregate t a) args call IGF = Inr (RV, IGF') \<Longrightarrow> \<exists>v. RV = forAggregate v"
  by (auto simp add: buildResult_def bind_def split: sum.splits)

lemma emitApplyGeneral_buildResult:
  "emitApplyGeneral C E resultType IGF = Inr (RV, IGF') \<Longrightarrow>
   \<exists>args call IGF6. buildResult (Schema resultType) args call IGF6 = Inr (RV, IGF')"
  unfolding emitApplyGeneral_def Let_def bind_def
  by (auto split: prod.splits sum.splits)

lemma emitApplyExpr_aggregate:
  assumes "isAggregate (Schema resultType)"
      and "emitApplyExpr C E resultType IGF = Inr (RV, IGF')"
  shows "\<exists>v. RV = forAggregate v"
proof -
  obtain t a where sch: "Schema resultType = Aggregate t a"
    using assms(1) by (cases "Schema resultType") simp_all
  have "emitBuiltinCall C Fn Arg resultType IGF \<noteq> Inr (RV, IGF')" for Fn Arg
    by (simp add: emitBuiltinCall_def sch assert_def bind_def)
  then have "emitApplyGeneral C E resultType IGF = Inr (RV, IGF')"
    using assms(2) by (auto simp add: emitApplyExpr_def split: option.splits if_splits)
  then show ?thesis
    using emitApplyGeneral_buildResult buildResult_aggregate sch by metis
qed

text \<open>
  Claim C10. \<open>tryEmitApplyAsAddress\<close> returns \<open>Nothing\<close> (having emitted nothing) exactly
  when the schema of the expected result type is not aggregate. When it is aggregate,
  every r-value that \<open>emitApplyExpr\<close> returns is an aggregate, and its address at the
  result type's storage alignment is what is returned; an abort of \<open>emitApplyExpr\<close> is
  the only other outcome. Through the general path the call is emitted and the address
  is that of the slot passed as the call's first argument.
\<close>

theorem tryEmitApplyAsAddress_nothing_iff_not_aggregate:
  "(tryEmitApplyAsAddress C E resultType IGF = Inr (None, IGF'')
      \<longleftrightarrow> \<not> isAggregate (Schema resultType) \<and> IGF'' = IGF)
   \<and> (isAggregate (Schema resultType) \<longrightarrow>
        (\<forall>RV IGF'. emitApplyExpr C E resultType IGF = Inr (RV, IGF') \<longrightarrow>
           (\<exists>v. RV = forAggregate v \<and>
                tryEmitApplyAsAddress C E resultType IGF =
                  Inr (Some \<lparr>getAddress = v, getAlignment = StorageAlignment resultType\<rparr>,
                       IGF')))
      \<and> (\<forall>e. emitApplyExpr C E resultType IGF = Inl e \<longrightarrow>
              tryEmitApplyAsAddress C E resultType IGF = Inl e))
   \<and> ((\<forall>Fn. getCalledValue E = Some Fn \<longrightarrow> getDeclContext Fn \<noteq> TheBuiltinModule)
        \<and> Schema resultType = Aggregate t a
        \<and> emitExplodedRValue C (getFn E) IGF = ([fn, data], IGF1)
        \<and> emitExplodedRValue C (getArg E) (IGF1\<lparr>Log := Log IGF1 @ [Create (Alloca t a)]\<rparr>)
              = (argVs, IGF3)
        \<and> Expr_getType (getFn E) = FunctionType i r
      \<longrightarrow> (\<exists>IGF' bc fnv.
             tryEmitApplyAsAddress C E resultType IGF =
               Inr (Some \<lparr>getAddress = InstValue (length (Log IGF1)) (PointerTy t),
                          getAlignment = StorageAlignment resultType\<rparr>, IGF')
           \<and> Log IGF' = Log IGF3 @
                 [Create bc,
                  Create (Call fnv
                            (InstValue (length (Log IGF1)) (PointerTy t) # argVs
                               @ (if isaUndefValue data then [] else [data]))
                            [(1, {StructRet, NoAlias})])]))"
proof (intro conjI impI allI)
  show "(tryEmitApplyAsAddress C E resultType IGF = Inr (None, IGF''))
          = (\<not> isAggregate (Schema resultType) \<and> IGF'' = IGF)"
    by (auto simp add: tryEmitApplyAsAddress_def Let_def bind_def
          split: sum.splits prod.splits)
next
  fix RV IGF'
  assume agg: "isAggregate (Schema resultType)"
     and ok: "emitApplyExpr C E resultType IGF = Inr (RV, IGF')"
  obtain v where v: "RV = forAggregate v"
    using emitApplyExpr_aggregate [OF agg ok] by blast
  show "\<exists>v. RV = forAggregate v \<and>
          tryEmitApplyAsAddress C E resultType IGF =
            Inr (Some \<lparr>getAddress = v, getAlignment = StorageAlignment resultType\<rparr>, IGF')"
    using agg ok v
    by (simp add: tryEmitApplyAsAddress_def Let_def bind_def assert_def)
next
  fix e
  assume "isAggregate (Schema resultType)" "emitApplyExpr C E resultType IGF = Inl e"
  then show "tryEmitApplyAsAddress C E resultType IGF = Inl e"
    by (simp add: tryEmitApplyAsAddress_def Let_def bind_def)
next
  assume h: "(\<forall>Fn. getCalledValue E = Some Fn \<longrightarrow> getDeclContext Fn \<noteq> TheBuiltinModule)
        \<and> Schema resultType = Aggregate t a
        \<and> emitExplodedRValue C (getFn E) IGF = ([fn, data], IGF1)
        \<and> emitExplodedRValue C (getArg E) (IGF1\<lparr>Log := Log IGF1 @ [Create (Alloca t a)]\<rparr>)
              = (argVs, IGF3)
        \<and> Expr_getType (getFn E) = FunctionType i r"
  obtain sig fti' where sig:
    "getFunctionType (IGM IGF3) (FuncTypeInfos IGF3 i r) (\<not> isaUndefValue data) = (sig, fti')"
    by (cases "getFunctionType (IGM IGF3) (FuncTypeInfos IGF3 i r) (\<not> isaUndefValue data)")
  have slot: "addResultSlot (Schema resultType) (newArgList Minimal) IGF1 =
     (\<lparr>ArgList_Values = \<lparr>Kind = Minimal,
                            Values = [InstValue (length (Log IGF1)) (PointerTy t)],
                            NextValue = 0\<rparr>,
       ArgList_Attrs = [(1, {StructRet, NoAlias})]\<rparr>,
      IGF1\<lparr>Log := Log IGF1 @ [Create (Alloca t a)]\<rparr>)"
    using h by (simp add: addResultSlot_Aggregate)
  have callee: "emitExplodedRValue C (getFn E) IGF = ([fn, data], IGF1)"
    and explicit: "emitExplodedRValue C (getArg E) (IGF1\<lparr>Log := Log IGF1 @ [Create (Alloca t a)]\<rparr>)
              = (argVs, IGF3)"
    and fnty: "Expr_getType (getFn E) = FunctionType i r"
    and notbuiltin:
      "\<forall>Fn. getCalledValue E = Some Fn \<longrightarrow> getDeclContext Fn \<noteq> TheBuiltinModule"
    and sch: "Schema resultType = Aggregate t a"
    using h by simp_all
  note eq = emitApplyGeneral_eq [OF callee slot explicit fnty sig]
  show "\<exists>IGF' bc fnv.
             tryEmitApplyAsAddress C E resultType IGF =
               Inr (Some \<lparr>getAddress = InstValue (length (Log IGF1)) (PointerTy t),
                          getAlignment = StorageAlignment resultType\<rparr>, IGF')
           \<and> Log IGF' = Log IGF3 @
                 [Create bc,
                  Create (Call fnv
                            (InstValue (length (Log IGF1)) (PointerTy t) # argVs
                               @ (if isaUndefValue data then [] else [data]))
                            [(1, {StructRet, NoAlias})])]"
    using eq
    by (simp add: tryEmitApplyAsAddress_def emitApplyExpr_general [OF notbuiltin] sch Let_def
          buildResult_def addDataArg_def add_def getAll_def claimNext_def bind_def assert_def
          del: instType.simps)
qed

text \<open>The lowering of the example expressions leaves the function as it is.\<close>

lemma demo_callee_closure:
  "emitExplodedRValue demoC (getFn demoCallPair) demoFnVoid =
     ([Argument 2 Int8PtrTy, Argument 3 Int8PtrTy], demoFnVoid)"
  by (simp add: demoC_def demoEmit_def demoCallPair_def)

lemma demo_callee_global:
  "emitExplodedRValue demoC (getFn demoCallBig) demoFnVoid =
     ([GlobalValue ''f'' Int8PtrTy, UndefValue Int8PtrTy], demoFnVoid)"
  by (simp add: demoC_def demoEmit_def demoCallBig_def)

lemma demo_args_pair:
  "emitExplodedRValue demoC (getArg demoCallPair) IGF =
     ([Argument 0 (IntegerTy 64), Argument 1 (IntegerTy 64)], IGF)"
  by (simp add: demoC_def demoEmit_def demoCallPair_def)

lemma demo_args_big:
  "emitExplodedRValue demoC (getArg demoCallBig) IGF =
     ([Argument 0 (IntegerTy 64), Argument 1 (IntegerTy 64)], IGF)"
  by (simp add: demoC_def demoEmit_def demoCallBig_def)

lemma demo_slot_pair:
  "addResultSlot (Schema (demoTypeInfo (NominalType ''Pair''))) (newArgList Minimal) demoFnVoid
     = (newArgList Minimal, demoFnVoid)"
  by (simp add: demoTypeInfo_def addResultSlot_Scalars)

lemma demo_log_empty: "Log demoFnVoid = []"
  by (simp add: demoFnVoid_def demoFunction_def)

theorem call_context_elision_witness:
  "getCalledValue demoCallPair = None
   \<and> emitExplodedRValue demoC (getFn demoCallPair) demoFnVoid =
       ([Argument 2 Int8PtrTy, Argument 3 Int8PtrTy], demoFnVoid)
   \<and> addResultSlot (Schema (demoTypeInfo (NominalType ''Pair''))) (newArgList Minimal)
       demoFnVoid = (newArgList Minimal, demoFnVoid)
   \<and> emitExplodedRValue demoC (getArg demoCallPair) demoFnVoid =
       ([Argument 0 (IntegerTy 64), Argument 1 (IntegerTy 64)], demoFnVoid)
   \<and> Expr_getType (getFn demoCallPair) =
       FunctionType (TupleType [NominalType ''Int'', NominalType ''Int'']) (NominalType ''Pair'')
   \<and> (\<exists>RV IGF' sig rest.
         emitApplyExpr demoC demoCallPair (demoTypeInfo (NominalType ''Pair'')) demoFnVoid
           = Inr (RV, IGF')
       \<and> Log IGF' =
           [Create (BitCast (Argument 2 Int8PtrTy) (PointerTy sig)),
            Create (Call (InstValue 0 (PointerTy sig))
                      [Argument 0 (IntegerTy 64), Argument 1 (IntegerTy 64),
                       Argument 3 Int8PtrTy] [])] @ rest)"
proof -
  have h1: "\<forall>Fn. getCalledValue demoCallPair = Some Fn \<longrightarrow> getDeclContext Fn \<noteq> TheBuiltinModule"
    by (simp add: demoCallPair_def)
  have h5: "Expr_getType (getFn demoCallPair) =
       FunctionType (TupleType [NominalType ''Int'', NominalType ''Int'']) (NominalType ''Pair'')"
    by (simp add: demoCallPair_def)
  from call_context_elision [OF h1 demo_callee_closure demo_slot_pair demo_args_pair h5]
  have "\<exists>RV IGF' sig rest.
         emitApplyExpr demoC demoCallPair (demoTypeInfo (NominalType ''Pair'')) demoFnVoid
           = Inr (RV, IGF')
       \<and> Log IGF' =
           [Create (BitCast (Argument 2 Int8PtrTy) (PointerTy sig)),
            Create (Call (InstValue 0 (PointerTy sig))
                      [Argument 0 (IntegerTy 64), Argument 1 (IntegerTy 64),
                       Argument 3 Int8PtrTy] [])] @ rest"
    by (simp add: demo_log_empty newArgList_def newExplosion_def Int8PtrTy_def) blast
  then show ?thesis
    using demo_callee_closure demo_slot_pair demo_args_pair h5
    by (simp add: demoCallPair_def)
qed

text \<open>
  The general path with an aggregate result and an undefined data pointer: the call's
  arguments are the return slot and then the explicit arguments, so they are not
  exactly the explicit arguments.
\<close>

theorem call_context_elision_counterexample:
  "\<not> isl (emitApplyExpr demoC demoCallBig (demoTypeInfo (NominalType ''Big'')) demoFnVoid)
   \<and> isaUndefValue (fst (emitExplodedRValue demoC (getFn demoCallBig) demoFnVoid) ! 1)
   \<and> fst (emitExplodedRValue demoC (getArg demoCallBig) demoFnVoid)
       = [Argument 0 (IntegerTy 64), Argument 1 (IntegerTy 64)]
   \<and> callArguments
       (Log (snd (projr (emitApplyExpr demoC demoCallBig (demoTypeInfo (NominalType ''Big''))
                           demoFnVoid))) ! 2)
       = [InstValue 0 (PointerTy (StructTy [IntegerTy 64, IntegerTy 64, IntegerTy 64])),
          Argument 0 (IntegerTy 64), Argument 1 (IntegerTy 64)]
   \<and> callArguments
       (Log (snd (projr (emitApplyExpr demoC demoCallBig (demoTypeInfo (NominalType ''Big''))
                           demoFnVoid))) ! 2)
       \<noteq> fst (emitExplodedRValue demoC (getArg demoCallBig) demoFnVoid)"
  by code_simp


theorem tryEmitApplyAsAddress_nothing_iff_not_aggregate_witness:
  "tryEmitApplyAsAddress demoC demoCallInt (demoTypeInfo (NominalType ''Int'')) demoFnVoid
     = Inr (None, demoFnVoid)
   \<and> (\<exists>IGF' bc fnv.
        tryEmitApplyAsAddress demoC demoCallBig (demoTypeInfo (NominalType ''Big'')) demoFnVoid
          = Inr (Some \<lparr>getAddress =
                          InstValue 0 (PointerTy (StructTy [IntegerTy 64, IntegerTy 64,
                                                            IntegerTy 64])),
                       getAlignment = 8\<rparr>, IGF')
      \<and> Log IGF' =
          [Create (Alloca (StructTy [IntegerTy 64, IntegerTy 64, IntegerTy 64]) 8),
           Create bc,
           Create (Call fnv
                     [InstValue 0 (PointerTy (StructTy [IntegerTy 64, IntegerTy 64,
                                                        IntegerTy 64])),
                      Argument 0 (IntegerTy 64), Argument 1 (IntegerTy 64)]
                     [(1, {StructRet, NoAlias})])])"
proof -
  have s: "Schema (demoTypeInfo (NominalType ''Big''))
             = Aggregate (StructTy [IntegerTy 64, IntegerTy 64, IntegerTy 64]) 8"
    and al: "StorageAlignment (demoTypeInfo (NominalType ''Big'')) = 8"
    and si: "\<not> isAggregate (Schema (demoTypeInfo (NominalType ''Int'')))"
    by (simp_all add: demoTypeInfo_def)
  have h1: "\<forall>Fn. getCalledValue demoCallBig = Some Fn \<longrightarrow> getDeclContext Fn \<noteq> TheBuiltinModule"
    by (simp add: demoCallBig_def)
  have h5: "Expr_getType (getFn demoCallBig) =
       FunctionType (TupleType [NominalType ''Int'', NominalType ''Int'']) (NominalType ''Big'')"
    by (simp add: demoCallBig_def)
  have a: "tryEmitApplyAsAddress demoC demoCallInt (demoTypeInfo (NominalType ''Int''))
             demoFnVoid = Inr (None, demoFnVoid)"
    using tryEmitApplyAsAddress_nothing_iff_not_aggregate
            [of demoC demoCallInt "demoTypeInfo (NominalType ''Int'')" demoFnVoid demoFnVoid]
          si
    by simp
  have b: "\<exists>IGF' bc fnv.
        tryEmitApplyAsAddress demoC demoCallBig (demoTypeInfo (NominalType ''Big'')) demoFnVoid
          = Inr (Some \<lparr>getAddress =
                          InstValue 0 (PointerTy (StructTy [IntegerTy 64, IntegerTy 64,
                                                            IntegerTy 64])),
                       getAlignment = 8\<rparr>, IGF')
      \<and> Log IGF' =
          [Create (Alloca (StructTy [IntegerTy 64, IntegerTy 64, IntegerTy 64]) 8),
           Create bc,
           Create (Call fnv
                     [InstValue 0 (PointerTy (StructTy [IntegerTy 64, IntegerTy 64,
                                                        IntegerTy 64])),
                      Argument 0 (IntegerTy 64), Argument 1 (IntegerTy 64)]
                     [(1, {StructRet, NoAlias})])]"
    using tryEmitApplyAsAddress_nothing_iff_not_aggregate
            [of demoC demoCallBig "demoTypeInfo (NominalType ''Big'')" demoFnVoid demoFnVoid
                "StructTy [IntegerTy 64, IntegerTy 64, IntegerTy 64]" 8
                "GlobalValue ''f'' Int8PtrTy" "UndefValue Int8PtrTy" demoFnVoid
                "[Argument 0 (IntegerTy 64), Argument 1 (IntegerTy 64)]"
                "demoFnVoid\<lparr>Log := Log demoFnVoid
                    @ [Create (Alloca (StructTy [IntegerTy 64, IntegerTy 64, IntegerTy 64]) 8)]\<rparr>"
                "TupleType [NominalType ''Int'', NominalType ''Int'']" "NominalType ''Big''"]
          h1 h5 s al demo_callee_global demo_args_big
    by (simp add: demo_log_empty)
  show ?thesis using a b by blast
qed

section \<open>The dispatch of the arithmetic builtins\<close>

text \<open>
  Claim C7. For a builtin call to add, multiply or subtract whose argument lowers to the
  two operands \<open>lhs\<close> and \<open>rhs\<close>, the one operation requested of the builder is chosen
  by the type of \<open>lhs\<close>: the floating-point variant (\<open>FAdd\<close>, \<open>FMul\<close>, \<open>FSub\<close>) if
  that type is floating-point, the integer variant (\<open>Add\<close>, \<open>Mul\<close>, \<open>Sub\<close>) otherwise;
  its value is the scalar of the r-value returned.
\<close>

theorem builtin_arithmetic_dispatch:
  assumes kind: "(isBuiltinValue Fn, IntOp, FPOp) \<in>
                   {(Add, CreateAdd, CreateFAdd), (Mul, CreateMul, CreateFMul),
                    (Sub, CreateSub, CreateFSub)}"
      and scalar: "isScalar (Schema resultType)"
      and operands: "emitExplodedRValue C Arg IGF = ([lhs, rhs], IGF1)"
  shows "emitBuiltinCall C Fn Arg resultType IGF =
           Inr (forScalars [InstValue (length (Log IGF1)) (getType lhs)],
                IGF1\<lparr>Log := Log IGF1 @
                   [Create (Binary (if isFloatingPointTy (getType lhs) then FPOp else IntOp)
                              lhs rhs)]\<rparr>)"
  using kind scalar operands
  by (auto simp add: emitBuiltinCall_def BINARY_ARITHMETIC_OPERATION_def bind_def assert_def
        newArgList_def newExplosion_def add_def claimNext_def empty_def create_def Let_def)

section \<open>The prologue\<close>

lemma claimParm_ok:
  "claimParm IGF cp = Inr (V, cp') \<Longrightarrow>
   cp' = Suc cp \<and> cp < length (CurFn_ArgTypes IGF) \<and> V = Argument cp (CurFn_ArgTypes IGF ! cp)"
  by (auto simp add: claimParm_def split: if_splits)

lemma claimScalars_count:
  "claimScalars IGF ts cp acc = Inr (vs, cp') \<Longrightarrow> cp' = cp + length ts"
proof (induction ts arbitrary: cp acc)
  case Nil
  then show ?case by simp
next
  case (Cons t ts)
  from Cons.prems obtain V where
    "claimScalars IGF ts (Suc cp) (acc @ [V]) = Inr (vs, cp')"
    by (auto simp add: bind_def assert_def split: sum.splits if_splits dest!: claimParm_ok)
  from Cons.IH [OF this] show ?case by simp
qed

lemma FuncTypeInfo_store_frame:
  "FuncTypeInfo_store C TI RV addr IGF = Inr IGF' \<Longrightarrow> \<exists>es. IGF' = IGF\<lparr>Log := Log IGF @ es\<rparr>"
  by (auto simp add: FuncTypeInfo_store_def bind_def assert_def create_def Let_def
        split: sum.splits if_splits)

lemma TypeInfo_store_frame:
  "TypeInfo_store C Ty TI RV addr IGF = Inr IGF' \<Longrightarrow> \<exists>es. IGF' = IGF\<lparr>Log := Log IGF @ es\<rparr>"
  by (cases Ty)
     (auto simp add: TypeInfo_store_def bind_def emitAll_def
        split: sum.splits dest: FuncTypeInfo_store_frame)

lemma emitParm_frame:
  assumes "emitParm C P cp IGF = Inr (cp', IGF')"
  shows "cp' = cp + schemaArgCount (Schema (getFragileTypeInfo (IGM IGF) (ArgDecl_getType P)))
       \<and> IGM IGF' = IGM IGF \<and> CurFn_ArgTypes IGF' = CurFn_ArgTypes IGF
       \<and> ReturnSlot IGF' = ReturnSlot IGF \<and> (\<exists>es. Log IGF' = Log IGF @ es)"
proof (cases "Schema (getFragileTypeInfo (IGM IGF) (ArgDecl_getType P))")
  case (Aggregate t a)
  then show ?thesis
    using assms
    by (auto simp add: emitParm_def Let_def bind_def assert_def schemaArgCount_def
          split: sum.splits if_splits dest!: claimParm_ok)
next
  case (Scalars ts)
  then show ?thesis
    using assms
    by (auto simp add: emitParm_def Let_def bind_def assert_def schemaArgCount_def
          createScopeAlloca_def create_def
          split: sum.splits if_splits prod.splits
          dest!: claimScalars_count TypeInfo_store_frame)
qed

lemma emitParms_frame:
  "emitParms C Ps cp IGF = Inr (cp', IGF') \<Longrightarrow>
     cp' = cp + sum_list (map (\<lambda>P. schemaArgCount (Schema (getFragileTypeInfo (IGM IGF) (ArgDecl_getType P)))) Ps)
   \<and> IGM IGF' = IGM IGF \<and> CurFn_ArgTypes IGF' = CurFn_ArgTypes IGF
   \<and> ReturnSlot IGF' = ReturnSlot IGF \<and> (\<exists>es. Log IGF' = Log IGF @ es)"
proof (induction Ps arbitrary: cp IGF)
  case Nil
  then show ?case by simp
next
  case (Cons P Ps)
  from Cons.prems obtain cp1 IGF1 where
    p: "emitParm C P cp IGF = Inr (cp1, IGF1)" and
    ps: "emitParms C Ps cp1 IGF1 = Inr (cp', IGF')"
    by (auto simp add: bind_def split: sum.splits)
  from emitParm_frame [OF p] Cons.IH [OF ps] show ?case
    by auto
qed


lemma setUpBlocks_frame:
  "setUpBlocks IGF = Inr IGF7 \<Longrightarrow>
     IGM IGF7 = IGM IGF \<and> CurFn_ArgTypes IGF7 = CurFn_ArgTypes IGF
   \<and> ReturnSlot IGF7 = ReturnSlot IGF \<and> CurFuncExpr_Type IGF7 = CurFuncExpr_Type IGF
   \<and> CurFuncExpr_NamedArgs IGF7 = CurFuncExpr_NamedArgs IGF
   \<and> Log IGF7 = Log IGF @ [PushBlock (NextBlock IGF), SetInsertPoint (NextBlock IGF),
                             Create (Alloca Int1Ty 0), PushBlock (Suc (NextBlock IGF))]"
  by (auto simp add: setUpBlocks_def createBasicBlock_def bind_def assert_def pushBlock_def
        perform_def SetInsertPointBB_def create_def Let_def split: if_splits)

lemma setUpResultSlot_cases:
  "setUpResultSlot C Res cp IGF = Inr (cp', IGF8) \<Longrightarrow>
     IGM IGF8 = IGM IGF \<and> CurFn_ArgTypes IGF8 = CurFn_ArgTypes IGF
   \<and> CurFuncExpr_NamedArgs IGF8 = CurFuncExpr_NamedArgs IGF
   \<and> (case Schema (getFragileTypeInfo (IGM IGF) Res) of
         Aggregate t a \<Rightarrow>
           cp' = Suc cp \<and> cp < length (CurFn_ArgTypes IGF)
         \<and> ReturnSlot IGF8 =
             Some \<lparr>getAddress = Argument cp (CurFn_ArgTypes IGF ! cp),
                   getAlignment = StorageAlignment (getFragileTypeInfo (IGM IGF) Res)\<rparr>
         \<and> Log IGF8 = Log IGF
       | Scalars ts \<Rightarrow>
           cp' = cp
         \<and> (if schemaIsScalarN C (Scalars ts) 0 then ReturnSlot IGF8 = None \<and> Log IGF8 = Log IGF
             else ReturnSlot IGF8 =
                    Some \<lparr>getAddress =
                            InstValue (length (Log IGF))
                              (PointerTy (StorageType (getFragileTypeInfo (IGM IGF) Res))),
                          getAlignment = StorageAlignment (getFragileTypeInfo (IGM IGF) Res)\<rparr>
                \<and> Log IGF8 = Log IGF @
                      [Create (Alloca (StorageType (getFragileTypeInfo (IGM IGF) Res))
                                 (StorageAlignment (getFragileTypeInfo (IGM IGF) Res)))]))"
  by (cases "Schema (getFragileTypeInfo (IGM IGF) Res)")
     (auto simp add: setUpResultSlot_def Let_def bind_def assert_def createScopeAlloca_def
        create_def split: sum.splits if_splits dest!: claimParm_ok)

lemma emitPrologue_steps:
  assumes "emitPrologue C IGF = Inr IGF'"
  shows "\<exists>Inp Res IGF7 cp IGF8.
           CurFuncExpr_Type IGF = FunctionType Inp Res
         \<and> setUpBlocks IGF = Inr IGF7
         \<and> setUpResultSlot C Res 0 IGF7 = Inr (cp, IGF8)
         \<and> emitParms C (CurFuncExpr_NamedArgs IGF) cp IGF8
              = Inr (length (CurFn_ArgTypes IGF), IGF')"
proof -
  from assms obtain IGF7 where b: "setUpBlocks IGF = Inr IGF7"
    by (auto simp add: emitPrologue_def bind_def split: sum.splits)
  note fb = setUpBlocks_frame [OF b]
  from assms b obtain Inp Res where ty: "CurFuncExpr_Type IGF7 = FunctionType Inp Res"
    by (cases "CurFuncExpr_Type IGF7") (auto simp add: emitPrologue_def bind_def)
  from assms b ty obtain cp IGF8 where r: "setUpResultSlot C Res 0 IGF7 = Inr (cp, IGF8)"
    by (auto simp add: emitPrologue_def bind_def split: sum.splits)
  note fr = setUpResultSlot_cases [OF r]
  from assms b ty r obtain cp' where
    p: "emitParms C (CurFuncExpr_NamedArgs IGF8) cp IGF8 = Inr (cp', IGF')"
    and e: "cp' = length (CurFn_ArgTypes IGF')"
    by (auto simp add: emitPrologue_def bind_def assert_def split: sum.splits if_splits)
  note fp = emitParms_frame [OF p]
  have "cp' = length (CurFn_ArgTypes IGF)"
    using e fp fr fb by simp
  then show ?thesis
    using b ty r p fb fr by auto
qed

text \<open>A prologue on well-formed input returns.\<close>

lemma claimScalars_total:
  "CurFn_ArgTypes IGF = pre @ ts @ post \<Longrightarrow> cp = length pre \<Longrightarrow>
   \<exists>vs. claimScalars IGF ts cp acc = Inr (acc @ vs, cp + length ts) \<and> length vs = length ts"
proof (induction ts arbitrary: pre cp acc)
  case Nil
  then show ?case by simp
next
  case (Cons t ts)
  have a: "CurFn_ArgTypes IGF = (pre @ [t]) @ ts @ post"
    using Cons.prems by simp
  have c: "Suc cp = length (pre @ [t])"
    using Cons.prems by simp
  from Cons.IH [OF a c, of "acc @ [Argument cp t]"] obtain vs where
    vs: "claimScalars IGF ts (Suc cp) (acc @ [Argument cp t])
           = Inr ((acc @ [Argument cp t]) @ vs, Suc cp + length ts)"
        "length vs = length ts"
    by blast
  have "claimScalars IGF (t # ts) cp acc = Inr (acc @ (Argument cp t # vs), cp + length (t # ts))"
    using Cons.prems vs by (simp add: bind_def claimParm_def assert_def nth_append)
  then show ?case
    using vs(2) by (intro exI [of _ "Argument cp t # vs"]) simp
qed

lemma funcSchema:
  "Schema (getFragileTypeInfo M (FunctionType i r)) = Scalars [Int8PtrTy, Int8PtrTy]"
  by (simp add: getFragileTypeInfo_def convertFunctionType_def FuncTypeInfo_getSchema_def
        TypeInfo.truncate_def Let_def)

lemma TypeInfo_store_total:
  assumes st: "\<forall>TI vs a n. \<exists>is. storeOther C TI (forScalars vs) a n = Inr is"
      and len: "length vs = length ts"
      and sch: "Schema (getFragileTypeInfo M Ty) = Scalars ts"
  shows "\<exists>IGF'. TypeInfo_store C Ty TI (forScalars vs) addr IGF = Inr IGF'
           \<and> IGM IGF' = IGM IGF \<and> CurFn_ArgTypes IGF' = CurFn_ArgTypes IGF
           \<and> Locals IGF' = Locals IGF"
proof (cases Ty)
  case (FunctionType i r)
  then have "length vs = 2"
    using len sch by (auto simp add: funcSchema)
  then show ?thesis
    using FunctionType
    by (simp add: TypeInfo_store_def FuncTypeInfo_store_def bind_def assert_def create_def
          Let_def del: instType.simps)
next
  case (NominalType n)
  from st obtain insts where "storeOther C TI (forScalars vs) addr (length (Log IGF)) = Inr insts"
    by blast
  then show ?thesis
    using NominalType by (simp add: TypeInfo_store_def bind_def emitAll_def)
next
  case (TupleType fs)
  from st obtain insts where "storeOther C TI (forScalars vs) addr (length (Log IGF)) = Inr insts"
    by blast
  then show ?thesis
    using TupleType by (simp add: TypeInfo_store_def bind_def emitAll_def)
qed

lemma emitParm_total:
  assumes st: "\<forall>TI vs a n. \<exists>is. storeOther C TI (forScalars vs) a n = Inr is"
      and args: "CurFn_ArgTypes IGF = pre @ addArgType (IGM IGF) (ArgDecl_getType P) [] @ post"
      and cp: "cp = length pre"
      and fresh: "map_of (Locals IGF) (ArgDecl_Id P) = None"
  shows "\<exists>IGF' addr.
           emitParm C P cp IGF
             = Inr (cp + length (addArgType (IGM IGF) (ArgDecl_getType P) []), IGF')
         \<and> IGM IGF' = IGM IGF \<and> CurFn_ArgTypes IGF' = CurFn_ArgTypes IGF
         \<and> Locals IGF' = Locals IGF @ [(ArgDecl_Id P, addr)]"
proof (cases "Schema (getFragileTypeInfo (IGM IGF) (ArgDecl_getType P))")
  case (Aggregate t a)
  then show ?thesis
    using args cp fresh
    by (simp add: emitParm_def Let_def bind_def assert_def claimParm_def addArgType_def)
next
  case (Scalars ts)
  let ?TI = "getFragileTypeInfo (IGM IGF) (ArgDecl_getType P)"
  obtain addr IGF1 where al:
    "createScopeAlloca (StorageType ?TI) (StorageAlignment ?TI) IGF = (addr, IGF1)"
    by (cases "createScopeAlloca (StorageType ?TI) (StorageAlignment ?TI) IGF")
  then have f1: "IGM IGF1 = IGM IGF" "CurFn_ArgTypes IGF1 = CurFn_ArgTypes IGF"
      "Locals IGF1 = Locals IGF"
    by (auto simp add: createScopeAlloca_def create_def)
  have a1: "CurFn_ArgTypes IGF1 = pre @ ts @ post"
    using args f1 Scalars by (simp add: addArgType_def)
  from claimScalars_total [OF a1 cp, of "[]"] obtain vs where
    vs: "claimScalars IGF1 ts cp [] = Inr (vs, cp + length ts)" "length vs = length ts"
    by auto
  from TypeInfo_store_total [OF st vs(2) Scalars, of ?TI addr IGF1] obtain IGF2 where
    es: "TypeInfo_store C (ArgDecl_getType P) ?TI (forScalars vs) addr IGF1 = Inr IGF2"
        "IGM IGF2 = IGM IGF1" "CurFn_ArgTypes IGF2 = CurFn_ArgTypes IGF1"
        "Locals IGF2 = Locals IGF1"
    by blast
  show ?thesis
    using Scalars al vs es fresh f1
    by (simp add: emitParm_def Let_def bind_def assert_def addArgType_def)
qed

lemma emitParms_total:
  assumes st: "\<forall>TI vs a n. \<exists>is. storeOther C TI (forScalars vs) a n = Inr is"
  shows "CurFn_ArgTypes IGF
           = pre @ concat (map (\<lambda>P. addArgType (IGM IGF) (ArgDecl_getType P) []) Ps) \<Longrightarrow>
         cp = length pre \<Longrightarrow>
         distinct (map ArgDecl_Id Ps) \<Longrightarrow>
         \<forall>P \<in> set Ps. map_of (Locals IGF) (ArgDecl_Id P) = None \<Longrightarrow>
         \<exists>IGF'. emitParms C Ps cp IGF = Inr (length (CurFn_ArgTypes IGF), IGF')"
proof (induction Ps arbitrary: pre cp IGF)
  case Nil
  then show ?case by simp
next
  case (Cons P Ps)
  let ?ts = "addArgType (IGM IGF) (ArgDecl_getType P) []"
  have a: "CurFn_ArgTypes IGF = pre @ ?ts
             @ concat (map (\<lambda>P. addArgType (IGM IGF) (ArgDecl_getType P) []) Ps)"
    using Cons.prems(1) by simp
  have fr: "map_of (Locals IGF) (ArgDecl_Id P) = None"
    using Cons.prems(4) by simp
  from emitParm_total [OF st a Cons.prems(2) fr] obtain IGF1 addr where
    p: "emitParm C P cp IGF = Inr (cp + length ?ts, IGF1)" and
    f: "IGM IGF1 = IGM IGF" "CurFn_ArgTypes IGF1 = CurFn_ArgTypes IGF"
       "Locals IGF1 = Locals IGF @ [(ArgDecl_Id P, addr)]"
    by blast
  have a1: "CurFn_ArgTypes IGF1 = (pre @ ?ts)
             @ concat (map (\<lambda>P. addArgType (IGM IGF1) (ArgDecl_getType P) []) Ps)"
    using a f by simp
  have c1: "cp + length ?ts = length (pre @ ?ts)"
    using Cons.prems(2) by simp
  have d1: "distinct (map ArgDecl_Id Ps)"
    using Cons.prems(3) by simp
  have l1: "\<forall>Q \<in> set Ps. map_of (Locals IGF1) (ArgDecl_Id Q) = None"
  proof
    fix Q assume q: "Q \<in> set Ps"
    moreover have "ArgDecl_Id P \<notin> ArgDecl_Id ` set Ps"
      using Cons.prems(3) by simp
    ultimately have "ArgDecl_Id Q \<noteq> ArgDecl_Id P"
      by (metis imageI)
    moreover have "map_of (Locals IGF) (ArgDecl_Id Q) = None"
      using Cons.prems(4) q by simp
    ultimately show "map_of (Locals IGF1) (ArgDecl_Id Q) = None"
      using f(3) by (simp add: map_add_def split: option.splits)
  qed
  from Cons.IH [OF a1 c1 d1 l1] obtain IGF' where
    "emitParms C Ps (cp + length ?ts) IGF1 = Inr (length (CurFn_ArgTypes IGF1), IGF')"
    by blast
  then show ?case
    using p f by (simp add: bind_def)
qed

lemma setUpBlocks_total:
  "CurFn_Blocks IGF = [] \<Longrightarrow> \<exists>IGF7. setUpBlocks IGF = Inr IGF7 \<and> Locals IGF7 = Locals IGF"
  by (simp add: setUpBlocks_def createBasicBlock_def bind_def assert_def pushBlock_def
        perform_def SetInsertPointBB_def create_def Let_def)

lemma setUpResultSlot_total:
  assumes rs: "ReturnSlot IGF = None"
      and args: "CurFn_ArgTypes IGF
                   = snd (resultTypeInfo (IGM IGF) (Schema (getFragileTypeInfo (IGM IGF) Res))) @ rest"
  shows "\<exists>IGF8. setUpResultSlot C Res 0 IGF
                  = Inr (length (snd (resultTypeInfo (IGM IGF)
                                        (Schema (getFragileTypeInfo (IGM IGF) Res)))), IGF8)
          \<and> Locals IGF8 = Locals IGF"
proof (cases "Schema (getFragileTypeInfo (IGM IGF) Res)")
  case (Aggregate t a)
  then show ?thesis
    using args
    by (simp add: setUpResultSlot_def Let_def bind_def claimParm_def resultTypeInfo_def)
next
  case (Scalars ts)
  then show ?thesis
    using rs
    by (simp add: setUpResultSlot_def Let_def bind_def assert_def resultTypeInfo_def
          createScopeAlloca_def create_def)
qed

lemma emitPrologue_total:
  assumes st: "\<forall>TI vs a n. \<exists>is. storeOther C TI (forScalars vs) a n = Inr is"
      and blocks: "CurFn_Blocks IGF = []"
      and ty: "CurFuncExpr_Type IGF = FunctionType Inp Res"
      and rs: "ReturnSlot IGF = None"
      and args: "CurFn_ArgTypes IGF = expectedArgTypes (IGM IGF) Res (CurFuncExpr_NamedArgs IGF)"
      and dist: "distinct (map ArgDecl_Id (CurFuncExpr_NamedArgs IGF))"
      and fresh: "\<forall>P \<in> set (CurFuncExpr_NamedArgs IGF). map_of (Locals IGF) (ArgDecl_Id P) = None"
  shows "\<exists>IGF'. emitPrologue C IGF = Inr IGF'"
proof -
  from setUpBlocks_total [OF blocks] obtain IGF7 where
    b: "setUpBlocks IGF = Inr IGF7" and l7: "Locals IGF7 = Locals IGF"
    by blast
  note fb = setUpBlocks_frame [OF b]
  let ?pre = "snd (resultTypeInfo (IGM IGF) (Schema (getFragileTypeInfo (IGM IGF) Res)))"
  let ?Ps = "CurFuncExpr_NamedArgs IGF"
  have a7: "CurFn_ArgTypes IGF7
              = snd (resultTypeInfo (IGM IGF7) (Schema (getFragileTypeInfo (IGM IGF7) Res)))
                @ concat (map (\<lambda>P. addArgType (IGM IGF) (ArgDecl_getType P) []) ?Ps)"
    using args fb by (simp add: expectedArgTypes_def)
  have r7: "ReturnSlot IGF7 = None"
    using rs fb by simp
  from setUpResultSlot_total [OF r7 a7, of C] obtain IGF8 where
    r: "setUpResultSlot C Res 0 IGF7 = Inr (length ?pre, IGF8)" and l8: "Locals IGF8 = Locals IGF7"
    using fb by auto
  note fr = setUpResultSlot_cases [OF r]
  have a8: "CurFn_ArgTypes IGF8
              = ?pre @ concat (map (\<lambda>P. addArgType (IGM IGF8) (ArgDecl_getType P) []) ?Ps)"
    using a7 fr fb by simp
  have f8: "\<forall>P \<in> set ?Ps. map_of (Locals IGF8) (ArgDecl_Id P) = None"
    using fresh l7 l8 by simp
  from emitParms_total [OF st a8 refl dist f8] obtain IGF' where
    p: "emitParms C ?Ps (length ?pre) IGF8 = Inr (length (CurFn_ArgTypes IGF8), IGF')"
    by blast
  from emitParms_frame [OF p] have "CurFn_ArgTypes IGF' = CurFn_ArgTypes IGF8"
    by simp
  then have "emitPrologue C IGF = Inr IGF'"
    using b ty r p fb fr by (simp add: emitPrologue_def bind_def assert_def)
  then show ?thesis by blast
qed

lemma expectedArgTypes_length:
  "length (expectedArgTypes M Res Ps) = expectedArgCount M Res Ps"
proof -
  have a: "length (addArgType M Ty []) = schemaArgCount (Schema (getFragileTypeInfo M Ty))" for Ty
    by (simp add: addArgType_def schemaArgCount_def getPointerTo_def split: RValueSchema.splits)
  have b: "length (concat (map (\<lambda>P. addArgType M (ArgDecl_getType P) []) Ps))
             = sum_list (map (\<lambda>P. schemaArgCount (Schema (getFragileTypeInfo M (ArgDecl_getType P)))) Ps)"
    by (induction Ps) (simp_all add: a)
  have c: "length (snd (resultTypeInfo M s)) = (if isAggregate s then 1 else 0)" for s
    by (cases s) (simp_all add: resultTypeInfo_def)
  show ?thesis
    by (simp add: expectedArgTypes_def expectedArgCount_def b c)
qed

text \<open>
  Claim C8. A prologue that is emitted has consumed the incoming arguments exactly: their
  number is the number that the result slot and the parameters, in declaration order,
  call for. With any other number of incoming arguments, more or fewer, the prologue
  aborts. And the prologue is emitted whenever the function is new (no block yet, no
  return slot), the incoming arguments have the types the signature lays out, the
  parameter declarations are distinct objects not yet among the locals, and storing
  scalars does not fail.
\<close>

theorem prologue_exhausts_arguments:
  "(emitPrologue C IGF = Inr IGF' \<longrightarrow>
      (\<exists>Inp Res. CurFuncExpr_Type IGF = FunctionType Inp Res
         \<and> length (CurFn_ArgTypes IGF)
             = expectedArgCount (IGM IGF) Res (CurFuncExpr_NamedArgs IGF)))
   \<and> (CurFuncExpr_Type IGF = FunctionType Inp Res
        \<and> length (CurFn_ArgTypes IGF)
             \<noteq> expectedArgCount (IGM IGF) Res (CurFuncExpr_NamedArgs IGF)
      \<longrightarrow> (\<exists>e. emitPrologue C IGF = Inl e))
   \<and> ((\<forall>TI vs a n. \<exists>insts. storeOther C TI (forScalars vs) a n = Inr insts)
        \<and> CurFn_Blocks IGF = []
        \<and> CurFuncExpr_Type IGF = FunctionType Inp Res
        \<and> ReturnSlot IGF = None
        \<and> CurFn_ArgTypes IGF = expectedArgTypes (IGM IGF) Res (CurFuncExpr_NamedArgs IGF)
        \<and> distinct (map ArgDecl_Id (CurFuncExpr_NamedArgs IGF))
        \<and> (\<forall>P \<in> set (CurFuncExpr_NamedArgs IGF). map_of (Locals IGF) (ArgDecl_Id P) = None)
      \<longrightarrow> (\<exists>IGF''. emitPrologue C IGF = Inr IGF''
                   \<and> length (CurFn_ArgTypes IGF)
                       = expectedArgCount (IGM IGF) Res (CurFuncExpr_NamedArgs IGF)))"
proof -
  have a: "\<exists>Inp Res. CurFuncExpr_Type IGF = FunctionType Inp Res
         \<and> length (CurFn_ArgTypes IGF)
             = expectedArgCount (IGM IGF) Res (CurFuncExpr_NamedArgs IGF)"
    if ok: "emitPrologue C IGF = Inr IGF'" for IGF'
  proof -
    from emitPrologue_steps [OF ok] obtain Inp Res IGF7 cp IGF8 where
      ty: "CurFuncExpr_Type IGF = FunctionType Inp Res" and
      b: "setUpBlocks IGF = Inr IGF7" and
      r: "setUpResultSlot C Res 0 IGF7 = Inr (cp, IGF8)" and
      p: "emitParms C (CurFuncExpr_NamedArgs IGF) cp IGF8
              = Inr (length (CurFn_ArgTypes IGF), IGF')"
      by blast
    note fb = setUpBlocks_frame [OF b]
    note fr = setUpResultSlot_cases [OF r]
    note fp = emitParms_frame [OF p]
    have cp: "cp = (if isAggregate (Schema (getFragileTypeInfo (IGM IGF) Res)) then 1 else 0)"
      using fr fb by (cases "Schema (getFragileTypeInfo (IGM IGF) Res)") simp_all
    have "length (CurFn_ArgTypes IGF)
             = expectedArgCount (IGM IGF) Res (CurFuncExpr_NamedArgs IGF)"
      using fp fr fb cp by (simp add: expectedArgCount_def)
    then show ?thesis using ty by blast
  qed
  show ?thesis
  proof (intro conjI impI)
    assume "emitPrologue C IGF = Inr IGF'"
    then show "\<exists>Inp Res. CurFuncExpr_Type IGF = FunctionType Inp Res
         \<and> length (CurFn_ArgTypes IGF)
             = expectedArgCount (IGM IGF) Res (CurFuncExpr_NamedArgs IGF)"
      by (rule a)
  next
    assume h: "CurFuncExpr_Type IGF = FunctionType Inp Res
        \<and> length (CurFn_ArgTypes IGF)
             \<noteq> expectedArgCount (IGM IGF) Res (CurFuncExpr_NamedArgs IGF)"
    show "\<exists>e. emitPrologue C IGF = Inl e"
    proof (cases "emitPrologue C IGF")
      case (Inl e)
      then show ?thesis by blast
    next
      case (Inr s)
      from a [OF Inr] h show ?thesis by auto
    qed
  next
    assume h: "(\<forall>TI vs a n. \<exists>insts. storeOther C TI (forScalars vs) a n = Inr insts)
        \<and> CurFn_Blocks IGF = []
        \<and> CurFuncExpr_Type IGF = FunctionType Inp Res
        \<and> ReturnSlot IGF = None
        \<and> CurFn_ArgTypes IGF = expectedArgTypes (IGM IGF) Res (CurFuncExpr_NamedArgs IGF)
        \<and> distinct (map ArgDecl_Id (CurFuncExpr_NamedArgs IGF))
        \<and> (\<forall>P \<in> set (CurFuncExpr_NamedArgs IGF). map_of (Locals IGF) (ArgDecl_Id P) = None)"
    then have "\<exists>IGF''. emitPrologue C IGF = Inr IGF''"
      by (intro emitPrologue_total) simp_all
    moreover have "length (CurFn_ArgTypes IGF)
                       = expectedArgCount (IGM IGF) Res (CurFuncExpr_NamedArgs IGF)"
      using h expectedArgTypes_length [of "IGM IGF" Res "CurFuncExpr_NamedArgs IGF"] by simp
    ultimately show "\<exists>IGF''. emitPrologue C IGF = Inr IGF''
                   \<and> length (CurFn_ArgTypes IGF)
                       = expectedArgCount (IGM IGF) Res (CurFuncExpr_NamedArgs IGF)"
      by blast
  qed
qed

text \<open>
  The return slot of an emitted prologue, by the test \<open>isScalar(0)\<close> on the schema of the
  result: an aggregate result has the first incoming argument as its slot; a scalar
  result that passes the test has no slot; a scalar result that fails it has a local
  alloca of the result's storage type, made right after the two blocks and the alloca
  insertion point.
\<close>

lemma prologue_return_slot_by_test:
  assumes ok: "emitPrologue C IGF = Inr IGF'"
      and ty: "CurFuncExpr_Type IGF = FunctionType Inp Res"
  shows "case Schema (getFragileTypeInfo (IGM IGF) Res) of
           Aggregate t a \<Rightarrow>
             0 < length (CurFn_ArgTypes IGF)
           \<and> ReturnSlot IGF' =
               Some \<lparr>getAddress = Argument 0 (CurFn_ArgTypes IGF ! 0),
                     getAlignment = StorageAlignment (getFragileTypeInfo (IGM IGF) Res)\<rparr>
         | Scalars ts \<Rightarrow>
             if schemaIsScalarN C (Scalars ts) 0 then ReturnSlot IGF' = None
             else ReturnSlot IGF' =
                    Some \<lparr>getAddress =
                            InstValue (length (Log IGF) + 4)
                              (PointerTy (StorageType (getFragileTypeInfo (IGM IGF) Res))),
                          getAlignment = StorageAlignment (getFragileTypeInfo (IGM IGF) Res)\<rparr>
                \<and> Log IGF' ! (length (Log IGF) + 4) =
                      Create (Alloca (StorageType (getFragileTypeInfo (IGM IGF) Res))
                                (StorageAlignment (getFragileTypeInfo (IGM IGF) Res)))"
proof -
  from emitPrologue_steps [OF ok] ty obtain IGF7 cp IGF8 where
      b: "setUpBlocks IGF = Inr IGF7" and
      r: "setUpResultSlot C Res 0 IGF7 = Inr (cp, IGF8)" and
      p: "emitParms C (CurFuncExpr_NamedArgs IGF) cp IGF8
              = Inr (length (CurFn_ArgTypes IGF), IGF')"
    by auto
  note fb = setUpBlocks_frame [OF b]
  note fr = setUpResultSlot_cases [OF r]
  from emitParms_frame [OF p] obtain es where
    rs: "ReturnSlot IGF' = ReturnSlot IGF8" and lg: "Log IGF' = Log IGF8 @ es"
    by blast
  show ?thesis
  proof (cases "Schema (getFragileTypeInfo (IGM IGF) Res)")
    case (Aggregate t a)
    then show ?thesis using fr fb rs by simp
  next
    case (Scalars ts)
    then show ?thesis using fr fb rs lg
      by (cases "schemaIsScalarN C (Scalars ts) 0") (simp_all add: nth_append)
  qed
qed

section \<open>The epilogue\<close>

lemma insertResults_frame:
  "insertResults vs Is R IGF = (R', IGF') \<Longrightarrow> \<exists>es. Log IGF' = Log IGF @ es"
proof (induction Is arbitrary: R IGF)
  case Nil
  then show ?case by auto
next
  case (Cons I Is)
  from Cons.prems have
    "insertResults vs Is (InstValue (length (Log IGF)) (instType (InsertValue R (vs ! I) I)))
       (IGF\<lparr>Log := Log IGF @ [Create (InsertValue R (vs ! I) I)]\<rparr>) = (R', IGF')"
    by (simp add: create_def del: instType.simps)
  from Cons.IH [OF this] show ?case by auto
qed

lemma TypeInfo_load_frame:
  "TypeInfo_load C Ty TI a IGF = Inr (RV, IGF1) \<Longrightarrow> \<exists>es. Log IGF1 = Log IGF @ es"
  by (cases Ty)
     (auto simp add: TypeInfo_load_def FuncTypeInfo_load_def create_def Let_def bind_def
        emitAll_def split: sum.splits)

lemma emitReturn_last:
  assumes "emitReturn C IGF = Inr IGF'"
  shows "\<exists>pre r. Log IGF' = Log IGF @ pre @ [Create r] \<and> (r = RetVoid \<or> (\<exists>v. r = Ret v))"
proof -
  from assms obtain Inp Res where ty: "CurFuncExpr_Type IGF = FunctionType Inp Res"
    by (cases "CurFuncExpr_Type IGF") (auto simp add: emitReturn_def)
  let ?rt = "getFragileTypeInfo (IGM IGF) Res"
  show ?thesis
  proof (cases "isAggregate (Schema ?rt) \<or> schemaIsScalarN C (Schema ?rt) 0")
    case True
    then have "IGF' = snd (create RetVoid IGF)"
      using assms ty
      by (auto simp add: emitReturn_def Let_def bind_def assert_def split: sum.splits if_splits)
    then have "Log IGF' = Log IGF @ [] @ [Create RetVoid]"
      by (simp add: create_def)
    then show ?thesis by blast
  next
    case False
    from False assms ty obtain slot where sl: "ReturnSlot IGF = Some slot"
      by (auto simp add: emitReturn_def Let_def split: option.splits)
    from False assms ty sl obtain RV IGF1 where
      ld: "TypeInfo_load C Res ?rt slot IGF = Inr (RV, IGF1)"
      by (auto simp add: emitReturn_def Let_def bind_def split: sum.splits)
    from TypeInfo_load_frame [OF ld] obtain es where es: "Log IGF1 = Log IGF @ es"
      by blast
    from False assms ty sl ld obtain vs where vs: "getScalars RV = Inr vs"
      by (auto simp add: emitReturn_def Let_def bind_def split: sum.splits if_splits)
    show ?thesis
    proof (cases "RValue_isScalarN RV 1")
      case True
      with False assms ty sl ld vs have "IGF' = snd (create (Ret (vs ! 0)) IGF1)"
        by (auto simp add: emitReturn_def Let_def bind_def)
      then have "Log IGF' = Log IGF @ es @ [Create (Ret (vs ! 0))]"
        using es by (simp add: create_def)
      then show ?thesis by blast
    next
      case F2: False
      obtain R' IGF2 where ins:
        "insertResults vs [0..<length vs] (UndefValue (CurFn_ReturnType IGF1)) IGF1 = (R', IGF2)"
        by (cases "insertResults vs [0..<length vs] (UndefValue (CurFn_ReturnType IGF1)) IGF1")
      from insertResults_frame [OF ins] obtain es2 where
        es2: "Log IGF2 = Log IGF1 @ es2" by blast
      from F2 False assms ty sl ld vs ins have "IGF' = snd (create (Ret R') IGF2)"
        by (auto simp add: emitReturn_def Let_def bind_def)
      then have "Log IGF' = Log IGF @ (es @ es2) @ [Create (Ret R')]"
        using es es2 by (simp add: create_def)
      then show ?thesis by blast
    qed
  qed
qed

lemma resolveReturnBB_log:
  assumes "resolveReturnBB IGF = Inr (goOn, IGF1)"
  shows "\<exists>ip rest. AllocaIP IGF = Some ip \<and> Log IGF1 = Log IGF @ EraseInst ip # rest
           \<and> (goOn \<or> (\<exists>bb. rest = [EraseBlock bb]))
           \<and> (goOn \<longleftrightarrow> \<not> (ReturnBB_Uses IGF = [] \<and> \<not> hasValidIP IGF))"
  using assms
  by (auto simp add: resolveReturnBB_def Let_def bind_def assert_def perform_def eraseBlock_def
        hasValidIP_def create_def SetInsertPointBB_def
        split: option.splits if_splits User.splits sum.splits)

text \<open>
  Claim C9, as amended. In every epilogue that is emitted, whichever branch resolves
  the return block, erasing the alloca insertion point is the first thing done; what
  follows is the resolution of the return block and then, last, the return instruction
  (or, when nothing branches to the return block and the insertion point is not valid,
  only the erasure of the return block).
\<close>

theorem epilogue_discards_alloca_point_first:
  assumes "emitEpilogue C IGF = Inr IGF'"
  shows "\<exists>ip rest. AllocaIP IGF = Some ip \<and> Log IGF' = Log IGF @ EraseInst ip # rest
        \<and> (if ReturnBB_Uses IGF = [] \<and> \<not> hasValidIP IGF
            then \<exists>bb. rest = [EraseBlock bb]
            else \<exists>pre r. rest = pre @ [Create r] \<and> (r = RetVoid \<or> (\<exists>v. r = Ret v)))"
proof -
  from assms obtain goOn IGF1 where r: "resolveReturnBB IGF = Inr (goOn, IGF1)"
    by (auto simp add: emitEpilogue_def bind_def split: sum.splits)
  from resolveReturnBB_log [OF r] obtain ip rest where
    ip: "AllocaIP IGF = Some ip" and lg: "Log IGF1 = Log IGF @ EraseInst ip # rest" and
    early: "goOn \<or> (\<exists>bb. rest = [EraseBlock bb])" and
    go: "goOn \<longleftrightarrow> \<not> (ReturnBB_Uses IGF = [] \<and> \<not> hasValidIP IGF)"
    by blast
  show ?thesis
  proof (cases goOn)
    case False
    then have "IGF' = IGF1" using assms r by (simp add: emitEpilogue_def bind_def)
    then show ?thesis using ip lg early go False by auto
  next
    case True
    then have "emitReturn C IGF1 = Inr IGF'"
      using assms r by (simp add: emitEpilogue_def bind_def)
    from emitReturn_last [OF this] obtain pre rr where
      "Log IGF' = Log IGF1 @ pre @ [Create rr]" "rr = RetVoid \<or> (\<exists>v. rr = Ret v)"
      by blast
    then have "Log IGF' = Log IGF @ EraseInst ip # (rest @ pre) @ [Create rr]"
      using lg by simp
    then show ?thesis
      using ip go True \<open>rr = RetVoid \<or> (\<exists>v. rr = Ret v)\<close> by auto
  qed
qed


section \<open>The closure round trip\<close>

lemma store_then_load_eq:
  "FuncTypeInfo_store C TI (forScalars [codePtr, dataPtr]) address IGF =
     Inr (IGF\<lparr>Log := Log IGF @
            [Create (StructGEP (getAddress address) 0),
             Create (Store codePtr
                       (InstValue (length (Log IGF)) (instType (StructGEP (getAddress address) 0)))
                       (getAlignment address)),
             Create (StructGEP (getAddress address) 1),
             Create (Store dataPtr
                       (InstValue (length (Log IGF) + 2)
                          (instType (StructGEP (getAddress address) 1)))
                       (alignmentAtOffset C (getAlignment address) (StorageAlignment TI)))]\<rparr>)"
  by (simp add: FuncTypeInfo_store_def bind_def assert_def create_def Let_def
        del: instType.simps)

text \<open>
  Claim C6, as amended. For values \<open>codePtr\<close>, \<open>dataPtr\<close> and a slot address that exist
  before the store: \<open>FuncTypeInfo::store\<close> of the two scalars succeeds, and
  \<open>FuncTypeInfo::load\<close> from the same address then returns two scalars that are the two
  loads it emits, from field 0 and field 1 of the slot; neither is the undefined value
  itself, whatever was stored. When the emitted instructions run, from any machine
  state, the two loads yield the values of \<open>codePtr\<close> and of \<open>dataPtr\<close>.
\<close>

theorem closure_store_load_roundtrip:
  assumes avail: "definedBefore (length (Log IGF)) codePtr"
                 "definedBefore (length (Log IGF)) dataPtr"
                 "definedBefore (length (Log IGF)) (getAddress address)"
  shows "\<exists>IGF1 fn data IGF2 fnAddr dataAddr a0 a1.
           FuncTypeInfo_store C TI (forScalars [codePtr, dataPtr]) address IGF = Inr IGF1
         \<and> FuncTypeInfo_load C TI address IGF1 = (forScalars [fn, data], IGF2)
         \<and> Log IGF2 = Log IGF1 @
              [Create (StructGEP (getAddress address) 0), Create (Load fnAddr a0),
               Create (StructGEP (getAddress address) 1), Create (Load dataAddr a1)]
         \<and> fn = InstValue (length (Log IGF) + 5) (instType (Load fnAddr a0))
         \<and> data = InstValue (length (Log IGF) + 7) (instType (Load dataAddr a1))
         \<and> \<not> isaUndefValue fn \<and> \<not> isaUndefValue data
         \<and> evalValue (execFrom (length (Log IGF)) (drop (length (Log IGF)) (Log IGF2)) m) fn
             = evalValue m codePtr
         \<and> evalValue (execFrom (length (Log IGF)) (drop (length (Log IGF)) (Log IGF2)) m) data
             = evalValue m dataPtr"
  unfolding store_then_load_eq
  using avail
  by (cases codePtr; cases dataPtr; cases "getAddress address";
      simp add: FuncTypeInfo_load_def create_def Let_def del: instType.simps)

section \<open>Concrete runs\<close>

theorem builtin_arithmetic_dispatch_witness:
  "(isBuiltinValue demoAdd, CreateAdd, CreateFAdd) \<in>
      {(Add, CreateAdd, CreateFAdd), (Mul, CreateMul, CreateFMul), (Sub, CreateSub, CreateFSub)}
   \<and> isScalar (Schema (demoTypeInfo (NominalType ''Double'')))
   \<and> emitExplodedRValue demoC \<lparr>ExprId = 3, Expr_getType = TupleType []\<rparr> demoFnVoid
       = ([Argument 0 DoubleTy, Argument 1 DoubleTy], demoFnVoid)
   \<and> emitExplodedRValue demoC \<lparr>ExprId = 1, Expr_getType = TupleType []\<rparr> demoFnVoid
       = ([Argument 0 (IntegerTy 64), Argument 1 (IntegerTy 64)], demoFnVoid)
   \<and> emitBuiltinCall demoC demoAdd \<lparr>ExprId = 3, Expr_getType = TupleType []\<rparr>
         (demoTypeInfo (NominalType ''Double'')) demoFnVoid
       = Inr (forScalars [InstValue 0 DoubleTy],
              demoFnVoid\<lparr>Log := [Create (Binary CreateFAdd (Argument 0 DoubleTy)
                                               (Argument 1 DoubleTy))]\<rparr>)
   \<and> emitBuiltinCall demoC demoAdd \<lparr>ExprId = 1, Expr_getType = TupleType []\<rparr>
         (demoTypeInfo (NominalType ''Double'')) demoFnVoid
       = Inr (forScalars [InstValue 0 (IntegerTy 64)],
              demoFnVoid\<lparr>Log := [Create (Binary CreateAdd (Argument 0 (IntegerTy 64))
                                               (Argument 1 (IntegerTy 64)))]\<rparr>)"
proof -
  have k: "(isBuiltinValue demoAdd, CreateAdd, CreateFAdd) \<in>
      {(Add, CreateAdd, CreateFAdd), (Mul, CreateMul, CreateFMul), (Sub, CreateSub, CreateFSub)}"
    by (simp add: demoAdd_def)
  have s: "isScalar (Schema (demoTypeInfo (NominalType ''Double'')))"
    by (simp add: demoTypeInfo_def)
  have f: "emitExplodedRValue demoC \<lparr>ExprId = 3, Expr_getType = TupleType []\<rparr> demoFnVoid
       = ([Argument 0 DoubleTy, Argument 1 DoubleTy], demoFnVoid)"
    by (simp add: demoC_def demoEmit_def)
  have i: "emitExplodedRValue demoC \<lparr>ExprId = 1, Expr_getType = TupleType []\<rparr> demoFnVoid
       = ([Argument 0 (IntegerTy 64), Argument 1 (IntegerTy 64)], demoFnVoid)"
    by (simp add: demoC_def demoEmit_def)
  show ?thesis
    using k s f i builtin_arithmetic_dispatch [OF k s f] builtin_arithmetic_dispatch [OF k s i]
    by (simp add: demoFnVoid_def demoFunction_def)
qed

lemma demoFnBig_fields:
  "CurFuncExpr_Type (demoFnBig as) =
     FunctionType (TupleType [NominalType ''Int'', NominalType ''Pair'', NominalType ''Double''])
       (NominalType ''Big'')"
  "CurFn_ArgTypes (demoFnBig as) = as"
  "IGM (demoFnBig as) = demoIGM"
  "Log (demoFnBig as) = []"
  "CurFuncExpr_NamedArgs (demoFnBig as) = demoBigParms"
  by (simp_all add: demoFnBig_def demoFunction_def)

lemma demo_expectedArgCount:
  "expectedArgCount demoIGM (NominalType ''Big'') demoBigParms = 5"
  by (simp add: expectedArgCount_def schemaArgCount_def demo_schemas demoBigParms_def)

lemma demo_prologue_five:
  "emitPrologue demoC (demoFnBig demoFiveArgs)
     = Inr (projr (emitPrologue demoC (demoFnBig demoFiveArgs)))"
proof -
  have "\<not> isl (emitPrologue demoC (demoFnBig demoFiveArgs))"
    by code_simp
  then show ?thesis by simp
qed

lemma demoStore_total:
  "\<forall>TI vs a n. \<exists>insts. storeOther demoC TI (forScalars vs) a n = Inr insts"
  by (simp add: demoC_def demoStore_def)

lemma demoFnSameName_fields:
  "CurFuncExpr_Type demoFnSameName =
     FunctionType (TupleType [NominalType ''Int'', NominalType ''Int'']) (TupleType [])"
  "CurFn_ArgTypes demoFnSameName = [IntegerTy 64, IntegerTy 64]"
  "IGM demoFnSameName = demoIGM"
  "CurFn_Blocks demoFnSameName = []"
  "ReturnSlot demoFnSameName = None"
  "Locals demoFnSameName = []"
  "CurFuncExpr_NamedArgs demoFnSameName = demoSameNameParms"
  by (simp_all add: demoFnSameName_def demoFunction_def)

lemma demo_expectedArgTypes_same_name:
  "expectedArgTypes demoIGM (TupleType []) demoSameNameParms = [IntegerTy 64, IntegerTy 64]"
  by code_simp

theorem prologue_exhausts_arguments_witness:
  "emitPrologue demoC (demoFnBig demoFiveArgs)
     = Inr (projr (emitPrologue demoC (demoFnBig demoFiveArgs)))
   \<and> length (CurFn_ArgTypes (demoFnBig demoFiveArgs))
       = expectedArgCount (IGM (demoFnBig demoFiveArgs)) (NominalType ''Big'')
           (CurFuncExpr_NamedArgs (demoFnBig demoFiveArgs))
   \<and> length (CurFn_ArgTypes (demoFnBig demoFiveArgs)) = 5
   \<and> length (CurFn_ArgTypes (demoFnBig (butlast demoFiveArgs))) = 4
   \<and> (\<exists>e. emitPrologue demoC (demoFnBig (butlast demoFiveArgs)) = Inl e)
   \<and> length (CurFn_ArgTypes (demoFnBig (demoFiveArgs @ [DoubleTy]))) = 6
   \<and> (\<exists>e. emitPrologue demoC (demoFnBig (demoFiveArgs @ [DoubleTy])) = Inl e)
   \<and> (\<forall>TI vs a n. \<exists>insts. storeOther demoC TI (forScalars vs) a n = Inr insts)
   \<and> CurFn_Blocks demoFnSameName = []
   \<and> CurFuncExpr_Type demoFnSameName
       = FunctionType (TupleType [NominalType ''Int'', NominalType ''Int'']) (TupleType [])
   \<and> ReturnSlot demoFnSameName = None
   \<and> CurFn_ArgTypes demoFnSameName
       = expectedArgTypes (IGM demoFnSameName) (TupleType [])
           (CurFuncExpr_NamedArgs demoFnSameName)
   \<and> map ArgDecl_getName (CurFuncExpr_NamedArgs demoFnSameName) = [''a'', ''a'']
   \<and> distinct (map ArgDecl_Id (CurFuncExpr_NamedArgs demoFnSameName))
   \<and> Locals demoFnSameName = []
   \<and> (\<exists>IGF''. emitPrologue demoC demoFnSameName = Inr IGF''
         \<and> length (CurFn_ArgTypes demoFnSameName)
             = expectedArgCount (IGM demoFnSameName) (TupleType [])
                 (CurFuncExpr_NamedArgs demoFnSameName))"
proof -
  have five: "length demoFiveArgs = 5"
    by (simp add: demoFiveArgs_def)
  have a: "length (CurFn_ArgTypes (demoFnBig demoFiveArgs))
       = expectedArgCount (IGM (demoFnBig demoFiveArgs)) (NominalType ''Big'')
           (CurFuncExpr_NamedArgs (demoFnBig demoFiveArgs))"
    using prologue_exhausts_arguments
            [of demoC "demoFnBig demoFiveArgs"
                "projr (emitPrologue demoC (demoFnBig demoFiveArgs))"]
          demo_prologue_five
    by (simp add: demoFnBig_fields)
  have b: "\<exists>e. emitPrologue demoC (demoFnBig (butlast demoFiveArgs)) = Inl e"
    using prologue_exhausts_arguments
            [of demoC "demoFnBig (butlast demoFiveArgs)" _
                "TupleType [NominalType ''Int'', NominalType ''Pair'', NominalType ''Double'']"
                "NominalType ''Big''"]
    by (simp add: demoFnBig_fields demo_expectedArgCount five)
  have c: "\<exists>e. emitPrologue demoC (demoFnBig (demoFiveArgs @ [DoubleTy])) = Inl e"
    using prologue_exhausts_arguments
            [of demoC "demoFnBig (demoFiveArgs @ [DoubleTy])" _
                "TupleType [NominalType ''Int'', NominalType ''Pair'', NominalType ''Double'']"
                "NominalType ''Big''"]
    by (simp add: demoFnBig_fields demo_expectedArgCount five)
  have ids: "distinct (map ArgDecl_Id demoSameNameParms)"
    by (simp add: demoSameNameParms_def)
  have names: "map ArgDecl_getName demoSameNameParms = [''a'', ''a'']"
    by (simp add: demoSameNameParms_def)
  have d: "\<exists>IGF''. emitPrologue demoC demoFnSameName = Inr IGF''
         \<and> length (CurFn_ArgTypes demoFnSameName)
             = expectedArgCount (IGM demoFnSameName) (TupleType [])
                 (CurFuncExpr_NamedArgs demoFnSameName)"
    using prologue_exhausts_arguments
            [of demoC demoFnSameName _
                "TupleType [NominalType ''Int'', NominalType ''Int'']" "TupleType []"]
          demoStore_total ids
    by (simp add: demoFnSameName_fields demo_expectedArgTypes_same_name)
  show ?thesis
    using demo_prologue_five a b c d demoStore_total ids names
    by (simp add: demoFnBig_fields demoFnSameName_fields demo_expectedArgTypes_same_name five)
qed

text \<open>
  The return slot of \<open>(a : Int) -> Int\<close> after its prologue under the two tests: with
  the test that counts the scalars the function has a slot allocated on its stack, with
  the test for a sole scalar it has none.
\<close>

lemma demo_return_slot_by_test:
  "ReturnSlot (projr (emitPrologue demoC demoFnInt))
     = Some \<lparr>getAddress = InstValue 4 (PointerTy (IntegerTy 64)), getAlignment = 8\<rparr>"
  "ReturnSlot (projr (emitPrologue demoOtherC demoFnInt)) = None"
  by code_simp+

lemma demo_epilogue_one_return:
  "emitEpilogue demoC demoBodyOneReturn = Inr (projr (emitEpilogue demoC demoBodyOneReturn))"
proof -
  have "\<not> isl (emitEpilogue demoC demoBodyOneReturn)"
    by code_simp
  then show ?thesis by simp
qed

theorem epilogue_discards_alloca_point_first_witness:
  "emitEpilogue demoC demoBodyOneReturn = Inr (projr (emitEpilogue demoC demoBodyOneReturn))
   \<and> (\<exists>rest pre r.
         Log (projr (emitEpilogue demoC demoBodyOneReturn))
           = Log demoBodyOneReturn @ EraseInst (InstValue 2 (PointerTy (IntegerTy 1))) # rest
       \<and> rest = pre @ [Create r] \<and> (r = RetVoid \<or> (\<exists>v. r = Ret v)))"
proof -
  have ip: "AllocaIP demoBodyOneReturn = Some (InstValue 2 (PointerTy (IntegerTy 1)))"
    by code_simp
  have u: "ReturnBB_Uses demoBodyOneReturn \<noteq> []"
    by (simp add: demoBodyOneReturn_def)
  from epilogue_discards_alloca_point_first [OF demo_epilogue_one_return]
  have "\<exists>rest pre r.
         Log (projr (emitEpilogue demoC demoBodyOneReturn))
           = Log demoBodyOneReturn @ EraseInst (InstValue 2 (PointerTy (IntegerTy 1))) # rest
       \<and> rest = pre @ [Create r] \<and> (r = RetVoid \<or> (\<exists>v. r = Ret v))"
    by (simp add: ip u)
  then show ?thesis
    using demo_epilogue_one_return by simp
qed

text \<open>
  The epilogue of the function \<open>() -> ()\<close> right after its prologue: the alloca insertion
  point is erased first, and the return is emitted last.
\<close>

theorem epilogue_discards_alloca_point_counterexample:
  "\<not> isl (emitEpilogue demoC (projr (emitPrologue demoC demoFnVoid)))
   \<and> AllocaIP (projr (emitPrologue demoC demoFnVoid))
       = Some (InstValue 2 (PointerTy (IntegerTy 1)))
   \<and> Log (projr (emitPrologue demoC demoFnVoid))
       = [PushBlock 0, SetInsertPoint 0, Create (Alloca (IntegerTy 1) 0), PushBlock 1]
   \<and> Log (projr (emitEpilogue demoC (projr (emitPrologue demoC demoFnVoid))))
       = [PushBlock 0, SetInsertPoint 0, Create (Alloca (IntegerTy 1) 0), PushBlock 1,
          EraseInst (InstValue 2 (PointerTy (IntegerTy 1))), EraseBlock 1, Create RetVoid]
   \<and> last (Log (projr (emitEpilogue demoC (projr (emitPrologue demoC demoFnVoid)))))
       \<noteq> EraseInst (InstValue 2 (PointerTy (IntegerTy 1)))"
  by code_simp

theorem closure_store_load_roundtrip_witness:
  "definedBefore (length (Log demoFnVoid)) (GlobalValue ''f'' Int8PtrTy)
   \<and> definedBefore (length (Log demoFnVoid)) (UndefValue Int8PtrTy)
   \<and> definedBefore (length (Log demoFnVoid)) (getAddress demoClosureSlot)
   \<and> (\<exists>IGF1 fn data IGF2.
         FuncTypeInfo_store demoC demoClosureInfo
           (forScalars [GlobalValue ''f'' Int8PtrTy, UndefValue Int8PtrTy]) demoClosureSlot
           demoFnVoid = Inr IGF1
       \<and> FuncTypeInfo_load demoC demoClosureInfo demoClosureSlot IGF1
           = (forScalars [fn, data], IGF2)
       \<and> \<not> isaUndefValue fn \<and> \<not> isaUndefValue data
       \<and> evalValue (execFrom 0 (Log IGF2) demoMachine) fn = RGlobal ''f''
       \<and> evalValue (execFrom 0 (Log IGF2) demoMachine) data = RUndef)"
proof -
  have h: "definedBefore (length (Log demoFnVoid)) (GlobalValue ''f'' Int8PtrTy)"
      "definedBefore (length (Log demoFnVoid)) (UndefValue Int8PtrTy)"
      "definedBefore (length (Log demoFnVoid)) (getAddress demoClosureSlot)"
    by (simp_all add: demoClosureSlot_def)
  from closure_store_load_roundtrip [OF h, of demoC demoClosureInfo demoMachine]
  have "\<exists>IGF1 fn data IGF2.
         FuncTypeInfo_store demoC demoClosureInfo
           (forScalars [GlobalValue ''f'' Int8PtrTy, UndefValue Int8PtrTy]) demoClosureSlot
           demoFnVoid = Inr IGF1
       \<and> FuncTypeInfo_load demoC demoClosureInfo demoClosureSlot IGF1
           = (forScalars [fn, data], IGF2)
       \<and> \<not> isaUndefValue fn \<and> \<not> isaUndefValue data
       \<and> evalValue (execFrom 0 (Log IGF2) demoMachine) fn = RGlobal ''f''
       \<and> evalValue (execFrom 0 (Log IGF2) demoMachine) data = RUndef"
    by (simp add: demo_log_empty del: instType.simps) blast
  then show ?thesis
    using h by simp
qed

text \<open>
  The global \<open>f\<close> and the undefined value, stored and loaded back: the r-value loaded is
  the two loads, not the two values stored, and its data scalar is not the undefined
  value.
\<close>

theorem closure_store_load_roundtrip_counterexample:
  "\<not> isl (FuncTypeInfo_store demoC demoClosureInfo
             (forScalars [GlobalValue ''f'' Int8PtrTy, UndefValue Int8PtrTy]) demoClosureSlot
             demoFnVoid)
   \<and> fst (FuncTypeInfo_load demoC demoClosureInfo demoClosureSlot
            (projr (FuncTypeInfo_store demoC demoClosureInfo
                      (forScalars [GlobalValue ''f'' Int8PtrTy, UndefValue Int8PtrTy])
                      demoClosureSlot demoFnVoid)))
       = forScalars [InstValue 5 Int8PtrTy, InstValue 7 Int8PtrTy]
   \<and> fst (FuncTypeInfo_load demoC demoClosureInfo demoClosureSlot
            (projr (FuncTypeInfo_store demoC demoClosureInfo
                      (forScalars [GlobalValue ''f'' Int8PtrTy, UndefValue Int8PtrTy])
                      demoClosureSlot demoFnVoid)))
       \<noteq> forScalars [GlobalValue ''f'' Int8PtrTy, UndefValue Int8PtrTy]
   \<and> isaUndefValue (UndefValue Int8PtrTy)
   \<and> \<not> isaUndefValue (InstValue 7 Int8PtrTy)"
  by code_simp

text \<open>
  The four branches of the epilogue on the function \<open>(a : Int) -> Int\<close> after its
  prologue (seven events, with the test that counts the scalars): no branch to the return block; one branch and a valid
  insertion point; one branch and no insertion point; two branches and no insertion
  point. The erasure of the alloca insertion point is the eighth event each time.
\<close>

lemma demo_epilogue_branches:
  "drop 7 (Log (projr (emitEpilogue demoC (projr (emitPrologue demoC demoFnInt))))) =
     [EraseInst (InstValue 2 (PointerTy (IntegerTy 1))), EraseBlock 1,
      Create (Load (InstValue 4 (PointerTy (IntegerTy 64))) 8),
      Create (Ret (InstValue 9 (IntegerTy 64)))]"
  "drop 7 (Log (projr (emitEpilogue demoC demoBodyOneReturn))) =
     [EraseInst (InstValue 2 (PointerTy (IntegerTy 1))), Create (Br 1), SetInsertPoint 1,
      Create (Load (InstValue 4 (PointerTy (IntegerTy 64))) 8),
      Create (Ret (InstValue 10 (IntegerTy 64)))]"
  "drop 7 (Log (projr (emitEpilogue demoC (demoBodyOneReturn\<lparr>InsertBlock := None\<rparr>)))) =
     [EraseInst (InstValue 2 (PointerTy (IntegerTy 1))), SetInsertPoint 7,
      EraseInst (InstValue 9 VoidTy), EraseBlock 1,
      Create (Load (InstValue 4 (PointerTy (IntegerTy 64))) 8),
      Create (Ret (InstValue 11 (IntegerTy 64)))]"
  "drop 7 (Log (projr (emitEpilogue demoC
                        (demoBodyOneReturn
                           \<lparr>InsertBlock := None,
                            ReturnBB_Uses := [BranchInst (InstValue 9 VoidTy) 7 True,
                                              BranchInst (InstValue 10 VoidTy) 8 True]\<rparr>)))) =
     [EraseInst (InstValue 2 (PointerTy (IntegerTy 1))), SetInsertPoint 1,
      Create (Load (InstValue 4 (PointerTy (IntegerTy 64))) 8),
      Create (Ret (InstValue 9 (IntegerTy 64)))]"
  by code_simp+

text \<open>
  The epilogue of \<open>() -> ()\<close> right after its prologue, with the test for a sole scalar:
  the erasure of the alloca insertion point is again the first event of the epilogue, and
  the return the last.
\<close>

lemma demo_epilogue_other_test:
  "\<not> isl (emitEpilogue demoOtherC (projr (emitPrologue demoOtherC demoFnVoid)))"
  "hd (drop (length (Log (projr (emitPrologue demoOtherC demoFnVoid))))
         (Log (projr (emitEpilogue demoOtherC (projr (emitPrologue demoOtherC demoFnVoid))))))
     = EraseInst (InstValue 2 (PointerTy (IntegerTy 1)))"
  "last (Log (projr (emitEpilogue demoOtherC (projr (emitPrologue demoOtherC demoFnVoid)))))
     \<noteq> EraseInst (InstValue 2 (PointerTy (IntegerTy 1)))"
  by code_simp+

end
